theory Spec2Isabelle
  imports Main "HOL-Library.Char_ord" "HOL-Library.List_Lexorder"
begin

section \<open>Shared data: errors, strings, tokens\<close>

text \<open>
  A thrown JavaScript error is a value: \<open>Error m\<close> is \<open>new Error(m)\<close>, \<open>TypeError m\<close> is the
  engine's error on reading a property of \<open>undefined\<close>.  Every function that can throw returns
  \<open>error + 'a\<close>, \<open>Inl\<close> being the throw.
\<close>

datatype error = Error string | TypeError string

fun message :: "error \<Rightarrow> string" where
  "message (Error m) = m"
| "message (TypeError m) = m"

text \<open>\<open>s.startsWith(p)\<close>.\<close>

definition startsWith :: "string \<Rightarrow> string \<Rightarrow> bool" where
  "startsWith s p = (take (length p) s = p)"

text \<open>\<open>s.includes(p)\<close>: \<open>p\<close> occurs in \<open>s\<close> at some position.\<close>

fun includesStr :: "string \<Rightarrow> string \<Rightarrow> bool" where
  "includesStr [] p = (p = [])"
| "includesStr (c # s) p = (startsWith (c # s) p \<or> includesStr s p)"

text \<open>\<open>xs.join(sep)\<close> on an array of strings.\<close>

fun join :: "string \<Rightarrow> string list \<Rightarrow> string" where
  "join sep [] = []"
| "join sep [x] = x"
| "join sep (x # y # ys) = x @ sep @ join sep (y # ys)"

text \<open>
  JavaScript truthiness of an optional string (\<open>undefined\<close> and \<open>""\<close> are falsy) and of an
  optional number (\<open>undefined\<close> and \<open>0\<close> are falsy).
\<close>

fun truthy :: "string option \<Rightarrow> bool" where
  "truthy None = False"
| "truthy (Some s) = (s \<noteq> [])"

fun truthyNum :: "int option \<Rightarrow> bool" where
  "truthyNum None = False"
| "truthyNum (Some n) = (n \<noteq> 0)"

text \<open>
  A JWT's claim set and protected header, every member optional as in a decoded JSON object.
  \<open>exp\<close> and \<open>iat\<close> are NumericDate values, in seconds.
\<close>

record jwt_payload =
  iss :: "string option"
  sub :: "string option"
  aud :: "string option"
  iat :: "int option"
  exp :: "int option"
  jti :: "string option"
  scopesClaim :: "string list option"

record protected_header =
  alg :: "string option"
  kid :: "string option"

section \<open>Verifying a self-issued assertion (src/auth/verifyAssertion.ts)\<close>

text \<open>
  \<open>const replayCache = new Map<string, number>()\<close>: jti to exp.  The map is module state, so
  \<open>verify\<close> takes it and returns it updated.
\<close>

type_synonym replay_cache = "string \<rightharpoonup> int"

record verified_agent =
  verifiedAgentId :: string
  verifiedKid :: "string option"

text \<open>
  \<open>makeVerifier(jwksUrl, expectedAudience)\<close> returns the closure \<open>verify\<close>.  jose's
  \<open>jwtVerify(token, jwks, {audience})\<close> is the library's: it is the parameter \<open>jwtVerify\<close>, given
  the key-set URL, the expected audience and the token, and it either throws or returns the
  payload and the protected header.  The result's members \<open>agentId\<close> and \<open>kid\<close> are
  \<open>verifiedAgentId\<close> and \<open>verifiedKid\<close>.
\<close>

definition makeVerifier ::
  "(string \<Rightarrow> string \<Rightarrow> string \<Rightarrow> error + jwt_payload \<times> protected_header) \<Rightarrow>
   string \<Rightarrow> string \<Rightarrow> replay_cache \<Rightarrow> string option \<Rightarrow>
   (error + verified_agent) \<times> replay_cache" where
  "makeVerifier jwtVerify jwksUrl expectedAudience replayCache authorizationHeader =
    (case authorizationHeader of
       None \<Rightarrow> (Inl (Error ''Missing bearer token''), replayCache)
     | Some h \<Rightarrow>
         if \<not> startsWith h ''Bearer '' then (Inl (Error ''Missing bearer token''), replayCache)
         else
           (case jwtVerify jwksUrl expectedAudience (drop (length ''Bearer '') h) of
              Inl e \<Rightarrow> (Inl e, replayCache)
            | Inr (payload, protectedHeader) \<Rightarrow>
                if \<not> truthy (iss payload) \<or> iss payload \<noteq> sub payload
                then (Inl (Error ''Invalid iss/sub''), replayCache)
                else if \<not> truthyNum (exp payload) \<or> \<not> truthy (jti payload)
                then (Inl (Error ''Missing exp/jti''), replayCache)
                else
                  (case (iss payload, exp payload, jti payload) of
                     (Some i, Some e, Some j) \<Rightarrow>
                       if replayCache j \<noteq> None
                       then (Inl (Error ''Replay detected''), replayCache)
                       else (Inr \<lparr>verifiedAgentId = i, verifiedKid = kid protectedHeader\<rparr>,
                             replayCache(j \<mapsto> e))
                   | _ \<Rightarrow> (Inl (Error ''Missing exp/jti''), replayCache))))"

text \<open>
  The spec's words for a replay record that still counts at time \<open>now\<close> (seconds): the jti is
  recorded and its record has not expired.
\<close>

definition recordedAndNotExpired :: "int \<Rightarrow> replay_cache \<Rightarrow> string \<Rightarrow> bool" where
  "recordedAndNotExpired now replayCache j =
    (case replayCache j of None \<Rightarrow> False | Some e \<Rightarrow> now < e)"

text \<open>
  Sample inputs: a \<open>jwtVerify\<close> that accepts the token \<open>tok-1\<close> only, a self-issued
  assertion, and only for the audience it names.
\<close>

definition sample_payload :: jwt_payload where
  "sample_payload =
    \<lparr>iss = Some ''agent://demo/a1'', sub = Some ''agent://demo/a1'',
     aud = Some ''https://tools.local/tickets'', iat = Some 240, exp = Some 300,
     jti = Some ''jti-1'', scopesClaim = None\<rparr>"

definition sample_header :: protected_header where
  "sample_header = \<lparr>alg = Some ''EdDSA'', kid = Some ''k1''\<rparr>"

definition sample_jwtVerify ::
  "string \<Rightarrow> string \<Rightarrow> string \<Rightarrow> error + jwt_payload \<times> protected_header" where
  "sample_jwtVerify jwksUrl audience token =
    (if token \<noteq> ''tok-1'' then Inl (Error ''signature verification failed'')
     else if aud sample_payload \<noteq> Some audience
     then Inl (Error ''unexpected aud claim value'')
     else Inr (sample_payload, sample_header))"

section \<open>Signing a client assertion (src/auth/signAssertion.ts)\<close>

text \<open>
  A JWK as \<open>makeClientAssertion\<close> reads it: its \<open>kid\<close>, its \<open>agent_id\<close> and the rest of the key.
  A parsed JSON document is the JWK its own members form (\<open>self\<close>) and, when its member
  \<open>keys\<close> is an array, that array (\<open>doc_keys\<close>).
\<close>

record jwk =
  jwk_kid :: "string option"
  agent_id :: "string option"
  keyMaterial :: string

record jwk_document =
  doc_keys :: "jwk list option"
  self :: jwk

record http_response =
  ok :: bool
  statusText :: string
  json :: "error + jwk_document"

text \<open>
  What the function reads from outside: \<open>fetch(url)\<close>, the file system
  (\<open>readJwkFile p\<close> is \<open>JSON.parse(readFileSync(join(p), "utf8"))\<close>), jose's \<open>importJWK\<close>,
  the clock \<open>Date.now()\<close> in milliseconds and \<open>randomUUID()\<close>.  Each may throw where the
  library can.
\<close>

record 'k sign_env =
  fetch :: "string \<Rightarrow> error + http_response"
  readJwkFile :: "string \<Rightarrow> error + jwk_document"
  importJWK :: "jwk \<Rightarrow> string \<Rightarrow> error + 'k"
  dateNow :: int
  randomUUID :: string

text \<open>
  The signed JWT, kept as what \<open>SignJWT\<close> was given: the protected header, the claims and the
  key that signed them.
\<close>

record 'k signed_jwt =
  protectedHeader :: protected_header
  claims :: jwt_payload
  signingKey :: 'k

text \<open>
  Lines 13 to 38 of \<open>makeClientAssertion\<close>: the private JWK \<open>priv\<close> and \<open>agent_id\<close>, from an
  HTTP endpoint or from a local file.  \<open>data.keys[0]\<close> of an empty array is \<open>undefined\<close>, and
  the next read of a member of \<open>priv\<close> throws a TypeError.
\<close>

definition loadKey ::
  "'k sign_env \<Rightarrow> string \<Rightarrow> string option \<Rightarrow> error + jwk \<times> string option" where
  "loadKey env privateJwkPath agentId =
    (if startsWith privateJwkPath ''http://'' \<or> startsWith privateJwkPath ''https://'' then
       (case fetch env privateJwkPath of
          Inl e \<Rightarrow> Inl e
        | Inr response \<Rightarrow>
            if \<not> ok response
            then Inl (Error (''Failed to fetch JWK from '' @ privateJwkPath @ '': ''
                              @ statusText response))
            else
              (case json response of
                 Inl e \<Rightarrow> Inl e
               | Inr data \<Rightarrow>
                   (case doc_keys data of
                      Some [] \<Rightarrow>
                        if truthy agentId
                        then Inl (TypeError
                          ''Cannot destructure property 'kid' of 'priv' as it is undefined.'')
                        else Inl (TypeError
                          ''Cannot read properties of undefined (reading 'agent_id')'')
                    | Some (priv # _) \<Rightarrow>
                        Inr (priv, if truthy agentId then agentId else agent_id priv)
                    | None \<Rightarrow>
                        Inr (self data,
                             if truthy agentId then agentId else agent_id (self data)))))
     else
       (case readJwkFile env privateJwkPath of
          Inl e \<Rightarrow> Inl e
        | Inr data \<Rightarrow> Inr (self data, agent_id (self data))))"

text \<open>\<open>makeClientAssertion({privateJwkPath, audience, agentId})\<close>.\<close>

definition makeClientAssertion ::
  "'k sign_env \<Rightarrow> string \<Rightarrow> string \<Rightarrow> string option \<Rightarrow> error + 'k signed_jwt" where
  "makeClientAssertion env privateJwkPath audience agentId =
    (case loadKey env privateJwkPath agentId of
       Inl e \<Rightarrow> Inl e
     | Inr (priv, agent) \<Rightarrow>
         if \<not> truthy (jwk_kid priv) then Inl (Error ''Private JWK missing kid'')
         else if \<not> truthy agent
         then Inl (Error ''Agent ID not provided and not found in JWK'')
         else
           (case importJWK env priv ''EdDSA'' of
              Inl e \<Rightarrow> Inl e
            | Inr key \<Rightarrow>
                (let now = dateNow env div 1000 in
                 Inr \<lparr>protectedHeader = \<lparr>alg = Some ''EdDSA'', kid = jwk_kid priv\<rparr>,
                      claims = \<lparr>iss = agent, sub = agent, aud = Some audience,
                                iat = Some now, exp = Some (now + 60),
                                jti = Some (randomUUID env), scopesClaim = None\<rparr>,
                      signingKey = key\<rparr>)))"

text \<open>
  Sample surroundings: one key file with an \<open>agent_id\<close>, one without, and an endpoint
  serving a key set.
\<close>

definition sample_jwk :: jwk where
  "sample_jwk = \<lparr>jwk_kid = Some ''k1'', agent_id = Some ''agent://worf'', keyMaterial = ''d1''\<rparr>"

definition sample_jwk_anonymous :: jwk where
  "sample_jwk_anonymous = \<lparr>jwk_kid = Some ''k2'', agent_id = None, keyMaterial = ''d2''\<rparr>"

definition sample_jwk_no_kid :: jwk where
  "sample_jwk_no_kid = \<lparr>jwk_kid = None, agent_id = None, keyMaterial = ''d3''\<rparr>"

definition sample_sign_env :: "string sign_env" where
  "sample_sign_env =
    \<lparr>fetch = (\<lambda>url.
        if url = ''http://localhost:8787/.well-known/jwks.json''
        then Inr \<lparr>ok = True, statusText = ''OK'',
                  json = Inr \<lparr>doc_keys = Some [sample_jwk_anonymous],
                              self = sample_jwk_no_kid\<rparr>\<rparr>
        else Inl (Error ''fetch failed'')),
     readJwkFile = (\<lambda>p.
        if p = ''secrets/k1.private.jwk.json''
        then Inr \<lparr>doc_keys = None, self = sample_jwk\<rparr>
        else if p = ''secrets/k2.private.jwk.json''
        then Inr \<lparr>doc_keys = None, self = sample_jwk_anonymous\<rparr>
        else if p = ''secrets/k3.private.jwk.json''
        then Inr \<lparr>doc_keys = None, self = sample_jwk_no_kid\<rparr>
        else Inl (Error ''ENOENT: no such file or directory'')),
     importJWK = (\<lambda>k a. Inr (keyMaterial k)),
     dateNow = 1755286299123,
     randomUUID = ''3b241101-e2bb-4255-8caf-4136c566a962''\<rparr>"

section \<open>The agent's token cache (src/mastra/agents/helpdesk-agent.ts)\<close>

text \<open>
  \<open>const tokenCache = new Map<string, { token: string; expires: number }>()\<close>, module state
  passed in and returned.  \<open>expires\<close> and every clock value in this section are milliseconds.
\<close>

record cache_entry =
  token :: string
  expires :: int

type_synonym token_cache = "string \<rightharpoonup> cache_entry"

text \<open>The argument of \<open>exchangeForAccessToken\<close>.\<close>

record exchange_request =
  reqPrivateJwkPath :: string
  reqAgentId :: string
  reqTokenServiceUrl :: string
  reqTargetAudience :: string
  reqScopes :: "string list"

text \<open>What \<open>console.log\<close> and \<open>console.error\<close> print, in order.\<close>

datatype console_line = ConsoleLog string | ConsoleError string error

text \<open>\<open>process.env\<close>, and the two ways the sources read it: \<open>v || d\<close> and \<open>v ?? d\<close>.\<close>

type_synonym process_env = "string \<rightharpoonup> string"

definition orDefault :: "string option \<Rightarrow> string \<Rightarrow> string" where
  "orDefault v d = (case v of None \<Rightarrow> d | Some s \<Rightarrow> if s = [] then d else s)"

definition nullish :: "string option \<Rightarrow> string \<Rightarrow> string" where
  "nullish v d = (case v of None \<Rightarrow> d | Some s \<Rightarrow> s)"

text \<open>
  \<open>payload?.exp * 1000\<close>, where \<open>payload\<close> is what \<open>decodeJWTPayload\<close> returned (\<open>null\<close> when
  the token does not decode).  \<open>None\<close> is NaN: no payload, or no numeric \<open>exp\<close> in it.
\<close>

definition tokenExpMs :: "jwt_payload option \<Rightarrow> int option" where
  "tokenExpMs payload =
    (case payload of
       None \<Rightarrow> None
     | Some p \<Rightarrow> (case exp p of None \<Rightarrow> None | Some e \<Rightarrow> Some (e * 1000)))"

text \<open>\<open>`${targetAudience}:${scopes.sort().join(",")}`\<close>; \<open>sort()\<close> orders strings by code unit.\<close>

definition cacheKey :: "string \<Rightarrow> string list \<Rightarrow> string" where
  "cacheKey targetAudience scopes = targetAudience @ '':'' @ join '','' (sort scopes)"

text \<open>
  \<open>cacheUntil\<close>: one minute before the token's own expiry, four minutes from now at most;
  four minutes from now when the expiry is NaN or 0.
\<close>

definition cacheUntil :: "jwt_payload option \<Rightarrow> int \<Rightarrow> int" where
  "cacheUntil payload nowAfter =
    (case tokenExpMs payload of
       None \<Rightarrow> nowAfter + 4 * 60 * 1000
     | Some tokenExp \<Rightarrow>
         if tokenExp \<noteq> 0 then min (tokenExp - 60 * 1000) (nowAfter + 4 * 60 * 1000)
         else nowAfter + 4 * 60 * 1000)"

text \<open>
  The cache miss of \<open>getAccessToken\<close> (from "Cache miss, requesting new token" to the return):
  the exchange, then the entry written under the key.  \<open>exchangeForAccessToken\<close> is not in the
  sources and \<open>decodeJWTPayload\<close> is base64 and JSON decoding: both are parameters.  \<open>nowAfter\<close>
  is \<open>Date.now()\<close> read after the exchange returned.
\<close>

definition requestNewToken ::
  "(exchange_request \<Rightarrow> error + string) \<Rightarrow> (string \<Rightarrow> jwt_payload option) \<Rightarrow> int \<Rightarrow>
   exchange_request \<Rightarrow> string \<Rightarrow> token_cache \<Rightarrow> console_line list \<Rightarrow>
   (error + string) \<times> token_cache \<times> console_line list" where
  "requestNewToken exchangeForAccessToken decodeJWTPayload nowAfter request key tokenCache out =
    (case exchangeForAccessToken request of
       Inl e \<Rightarrow> (Inl e, tokenCache, out @ [ConsoleLog ''Cache miss, requesting new token''])
     | Inr accessToken \<Rightarrow>
         (Inr accessToken,
          tokenCache(key \<mapsto>
            \<lparr>token = accessToken,
             expires = cacheUntil (decodeJWTPayload accessToken) nowAfter\<rparr>),
          out @ [ConsoleLog ''Cache miss, requesting new token'',
                 ConsoleLog ''Successfully obtained and cached access token'']))"

text \<open>The three lines \<open>getAccessToken\<close> prints first; \<open>scopes\<close> is not yet sorted here.\<close>

definition initialLines ::
  "string \<Rightarrow> string \<Rightarrow> string \<Rightarrow> string list \<Rightarrow> console_line list" where
  "initialLines agentId tokenServiceUrl targetAudience scopes =
    [ConsoleLog (''Getting access token for audience: '' @ targetAudience
                 @ '', scopes: '' @ join '','' scopes),
     ConsoleLog (''Using token service: '' @ tokenServiceUrl),
     ConsoleLog (''Agent ID: '' @ agentId)]"

text \<open>
  \<open>getAccessToken\<close> once the three settings are known: lines 39 to 95 of the first version of
  the agent and lines 290 to 346 of the latest, which are the same.  \<open>now\<close> is \<open>Date.now()\<close> at
  the cache check.  The \<open>catch\<close> prints the error and throws it again.
\<close>

definition getAccessTokenWith ::
  "(exchange_request \<Rightarrow> error + string) \<Rightarrow> (string \<Rightarrow> jwt_payload option) \<Rightarrow> int \<Rightarrow> int \<Rightarrow>
   string \<Rightarrow> string \<Rightarrow> string \<Rightarrow> token_cache \<Rightarrow> string \<Rightarrow> string list \<Rightarrow>
   (error + string) \<times> token_cache \<times> console_line list" where
  "getAccessTokenWith exchangeForAccessToken decodeJWTPayload now nowAfter
      privateJwkPath agentId tokenServiceUrl tokenCache targetAudience scopes =
    (let out = initialLines agentId tokenServiceUrl targetAudience scopes;
         key = cacheKey targetAudience scopes;
         request = \<lparr>reqPrivateJwkPath = privateJwkPath, reqAgentId = agentId,
                    reqTokenServiceUrl = tokenServiceUrl, reqTargetAudience = targetAudience,
                    reqScopes = sort scopes\<rparr>;
         outcome =
           (case tokenCache key of
              None \<Rightarrow>
                requestNewToken exchangeForAccessToken decodeJWTPayload nowAfter request key
                  tokenCache out
            | Some cached \<Rightarrow>
                if expires cached > now then
                  (if (case tokenExpMs (decodeJWTPayload (token cached)) of
                         None \<Rightarrow> False
                       | Some tokenExp \<Rightarrow> tokenExp \<noteq> 0 \<and> tokenExp > now + 30 * 1000)
                   then (Inr (token cached), tokenCache, out @ [ConsoleLog ''Using cached token''])
                   else
                     requestNewToken exchangeForAccessToken decodeJWTPayload nowAfter request key
                       (tokenCache(key := None))
                       (out @ [ConsoleLog ''Cached token expired, removing from cache'']))
                else
                  requestNewToken exchangeForAccessToken decodeJWTPayload nowAfter request key
                    tokenCache out)
     in (case outcome of
           (Inl e, cache', out') \<Rightarrow>
             (Inl e, cache', out' @ [ConsoleError ''Failed to get access token:'' e])
         | (Inr t, cache', out') \<Rightarrow> (Inr t, cache', out')))"

text \<open>The first version of the agent (lines 27 to 96): each setting has a built-in default.\<close>

definition getAccessToken_defaults ::
  "process_env \<Rightarrow> (exchange_request \<Rightarrow> error + string) \<Rightarrow> (string \<Rightarrow> jwt_payload option) \<Rightarrow>
   int \<Rightarrow> int \<Rightarrow> token_cache \<Rightarrow> string \<Rightarrow> string list \<Rightarrow>
   (error + string) \<times> token_cache \<times> console_line list" where
  "getAccessToken_defaults env exchangeForAccessToken decodeJWTPayload now nowAfter
      tokenCache targetAudience scopes =
    getAccessTokenWith exchangeForAccessToken decodeJWTPayload now nowAfter
      (orDefault (env ''HELPDESK_PRIVATE_JWK_PATH'')
         ''/home/brucec/techplay2/sandbox/auth-template-hackathon-v0/secrets/a1-ed25519-2025-08-15-d0a5e088.private.jwk.json'')
      (orDefault (env ''HELPDESK_AGENT_ID'') ''agent://demo/a1'')
      (orDefault (env ''TOKEN_SERVICE_URL'') ''http://localhost:8787'')
      tokenCache targetAudience scopes"

text \<open>
  The latest version of the agent (lines 269 to 347): each setting is required, and its
  absence (unset or empty) throws inside the \<open>try\<close>, before the cache is read.
  \<open>requireEnv\<close> is one of the three tests, \<open>if (!v) throw new Error("NAME environment
  variable is required")\<close>.
\<close>

definition requireEnv :: "process_env \<Rightarrow> string \<Rightarrow> error + string" where
  "requireEnv env name =
    (case env name of
       None \<Rightarrow> Inl (Error (name @ '' environment variable is required''))
     | Some v \<Rightarrow>
         if v = [] then Inl (Error (name @ '' environment variable is required''))
         else Inr v)"

definition getAccessToken ::
  "process_env \<Rightarrow> (exchange_request \<Rightarrow> error + string) \<Rightarrow> (string \<Rightarrow> jwt_payload option) \<Rightarrow>
   int \<Rightarrow> int \<Rightarrow> token_cache \<Rightarrow> string \<Rightarrow> string list \<Rightarrow>
   (error + string) \<times> token_cache \<times> console_line list" where
  "getAccessToken env exchangeForAccessToken decodeJWTPayload now nowAfter
      tokenCache targetAudience scopes =
    (let failed = (\<lambda>e. (Inl e, tokenCache, [ConsoleError ''Failed to get access token:'' e]))
     in case requireEnv env ''HELPDESK_PRIVATE_JWK_PATH'' of
          Inl e \<Rightarrow> failed e
        | Inr privateJwkPath \<Rightarrow>
            (case requireEnv env ''HELPDESK_AGENT_ID'' of
               Inl e \<Rightarrow> failed e
             | Inr agentId \<Rightarrow>
                 (case requireEnv env ''TOKEN_SERVICE_URL'' of
                    Inl e \<Rightarrow> failed e
                  | Inr tokenServiceUrl \<Rightarrow>
                      getAccessTokenWith exchangeForAccessToken decodeJWTPayload now nowAfter
                        privateJwkPath agentId tokenServiceUrl
                        tokenCache targetAudience scopes)))"

text \<open>
  The hit rule in words: an entry exists under the key, the clock is before its \<open>expires\<close>,
  and the expiry decoded from the stored token is a number other than 0 that lies more than
  30 seconds ahead.  \<open>unexpiredEntry\<close> is the first two of these.
\<close>

definition unexpiredEntry :: "int \<Rightarrow> token_cache \<Rightarrow> string \<Rightarrow> bool" where
  "unexpiredEntry now tokenCache key =
    (case tokenCache key of None \<Rightarrow> False | Some cached \<Rightarrow> now < expires cached)"

definition usableEntry ::
  "(string \<Rightarrow> jwt_payload option) \<Rightarrow> int \<Rightarrow> token_cache \<Rightarrow> string \<Rightarrow> bool" where
  "usableEntry decodeJWTPayload now tokenCache key =
    (case tokenCache key of
       None \<Rightarrow> False
     | Some cached \<Rightarrow>
         now < expires cached \<and>
         (case tokenExpMs (decodeJWTPayload (token cached)) of
            None \<Rightarrow> False
          | Some tokenExp \<Rightarrow> tokenExp \<noteq> 0 \<and> now + 30000 < tokenExp))"

text \<open>
  Scope names for which the cache key is unambiguous: not empty, and free of the two
  separators of the key.
\<close>

definition validScopes :: "string list \<Rightarrow> bool" where
  "validScopes scopes =
    list_all (\<lambda>s. s \<noteq> [] \<and> CHR '','' \<notin> set s \<and> CHR '':'' \<notin> set s) scopes"

text \<open>
  Provenance of a cache: \<open>issuedFor a s t\<close> reads "the token service issued \<open>t\<close> on a request
  for audience \<open>a\<close> and scope list \<open>s\<close>".  Every entry sits under the key of a request with
  valid scope names, and its token was issued for that request.
\<close>

definition cacheProvenance ::
  "(string \<Rightarrow> string list \<Rightarrow> string \<Rightarrow> bool) \<Rightarrow> token_cache \<Rightarrow> bool" where
  "cacheProvenance issuedFor tokenCache =
    (\<forall>k e. tokenCache k = Some e \<longrightarrow>
       (\<exists>a s. validScopes s \<and> k = cacheKey a s \<and> issuedFor a (sort s) (token e)))"

text \<open>
  Sample surroundings: a token service whose token spells out the scopes it was asked for,
  one that is down, and tokens that all expire at second 1300.
\<close>

definition sample_exchange :: "exchange_request \<Rightarrow> error + string" where
  "sample_exchange request =
    Inr (''T'' @ concat (map (\<lambda>s. ''['' @ s @ '']'') (reqScopes request)))"

definition failing_exchange :: "exchange_request \<Rightarrow> error + string" where
  "failing_exchange request = Inl (Error ''fetch failed'')"

definition sample_decode :: "string \<Rightarrow> jwt_payload option" where
  "sample_decode t =
    Some \<lparr>iss = Some ''https://token-service.local'', sub = Some ''agent://demo/a1'',
          aud = Some ''https://tools.local/tickets'', iat = None, exp = Some 1300,
          jti = None, scopesClaim = None\<rparr>"

definition sample_issuedFor :: "string \<Rightarrow> string list \<Rightarrow> string \<Rightarrow> bool" where
  "sample_issuedFor a s t = (t = ''T'' @ concat (map (\<lambda>s. ''['' @ s @ '']'') s))"

text \<open>A cache holding one entry for \<open>tickets.read\<close>, usable until 1240000.\<close>

definition cache_at_1240 :: token_cache where
  "cache_at_1240 = [''https://tools.local/tickets:tickets.read'' \<mapsto>
      \<lparr>token = ''T[tickets.read]'', expires = 1240000\<rparr>]"

text \<open>The cache after a token for the single scope \<open>tickets.read,tickets.write\<close> was stored.\<close>

definition cache_comma :: token_cache where
  "cache_comma = [''https://tools.local/tickets:tickets.read,tickets.write'' \<mapsto>
      \<lparr>token = ''T[tickets.read,tickets.write]'', expires = 1240000\<rparr>]"

section \<open>The ticket tools (src/mastra/tools/tickets-tool.ts)\<close>

text \<open>What \<open>verifyAccessToken\<close> resolves to: the members \<open>agentId\<close> and \<open>scopes\<close>.\<close>

record access_grant =
  grantAgentId :: string
  grantScopes :: "string list"

text \<open>
  Modelled from the spec: \<open>makeAccessTokenVerifier\<close>, which the latest tickets tool imports
  from auth/verifyAssertion and the sources do not hold.  Section 4.5: the same header
  parsing and signature and audience checks as the assertion verifier, the expected issuer
  being the Token Service's identity (\<open>UntrustedIssuer\<close> otherwise); the result is the agent
  identifier (the subject) and the scopes.  Sections 2 and 4.6: the replay guard is consulted,
  a jti already recorded and not expired fails with \<open>ReplayDetected\<close>, otherwise the jti is
  recorded with its expiry.  \<open>UntrustedIssuer\<close> carries the message "Invalid issuer", the text
  \<open>verifyToken\<close> looks for.  \<open>now\<close> is in seconds.
\<close>

definition makeAccessTokenVerifier ::
  "(string \<Rightarrow> string \<Rightarrow> string \<Rightarrow> error + jwt_payload \<times> protected_header) \<Rightarrow> string \<Rightarrow> int \<Rightarrow>
   string \<Rightarrow> string \<Rightarrow> replay_cache \<Rightarrow> string \<Rightarrow>
   (error + access_grant) \<times> replay_cache" where
  "makeAccessTokenVerifier jwtVerify tokenServiceIssuer now jwksUrl expectedAudience
      replayCache authorizationHeader =
    (if \<not> startsWith authorizationHeader ''Bearer ''
     then (Inl (Error ''Missing bearer token''), replayCache)
     else
       (case jwtVerify jwksUrl expectedAudience
               (drop (length ''Bearer '') authorizationHeader) of
          Inl e \<Rightarrow> (Inl e, replayCache)
        | Inr (payload, header) \<Rightarrow>
            if iss payload \<noteq> Some tokenServiceIssuer
            then (Inl (Error ''Invalid issuer''), replayCache)
            else
              (case (sub payload, exp payload, jti payload) of
                 (Some s, Some e, Some j) \<Rightarrow>
                   if recordedAndNotExpired now replayCache j
                   then (Inl (Error ''Replay detected''), replayCache)
                   else (Inr \<lparr>grantAgentId = s,
                              grantScopes = (case scopesClaim payload of
                                               None \<Rightarrow> [] | Some xs \<Rightarrow> xs)\<rparr>,
                         replayCache(j \<mapsto> e))
               | _ \<Rightarrow> (Inl (Error ''Missing required claims''), replayCache))))"

text \<open>
  \<open>verifyToken(authHeader, requiredScope)\<close> of the latest tool.  \<open>verifyAccessToken\<close> is its
  parameter, with whatever state \<open>'s\<close> that verifier keeps.  The \<open>catch\<close> replaces any error
  whose message includes "Invalid issuer" and throws every other error again.
\<close>

definition verifyToken ::
  "('s \<Rightarrow> string \<Rightarrow> (error + access_grant) \<times> 's) \<Rightarrow> 's \<Rightarrow> string \<Rightarrow> string \<Rightarrow>
   (error + access_grant) \<times> 's" where
  "verifyToken verifyAccessToken st authHeader requiredScope =
    (case verifyAccessToken st authHeader of
       (outcome, st') \<Rightarrow>
         (case (case outcome of
                  Inl e \<Rightarrow> Inl e
                | Inr result \<Rightarrow>
                    if requiredScope \<notin> set (grantScopes result)
                    then Inl (Error (''Insufficient permissions: '' @ requiredScope
                                     @ '' scope required''))
                    else Inr \<lparr>grantAgentId = grantAgentId result,
                              grantScopes = grantScopes result\<rparr>) of
            Inl e \<Rightarrow>
              if includesStr (message e) ''Invalid issuer''
              then (Inl (Error ''Token service required - direct JWT not accepted for security''),
                    st')
              else (Inl e, st')
          | Inr r \<Rightarrow> (Inr r, st')))"

text \<open>
  The tickets and the two stubs of business logic.  \<open>None\<close> as filter is "all"; the
  member \<open>by\<close> is \<open>createdBy\<close>; \<open>showInt\<close> prints \<open>Date.now()\<close> in decimal for the ticket
  id; \<open>nowIso\<close> is \<open>new Date().toISOString()\<close>.
\<close>

datatype ticket_status = Open | InProgress | Closed

record ticket =
  ticketId :: string
  title :: string
  createdBy :: string
  description :: "string option"
  status :: "ticket_status option"
  createdAt :: "string option"

fun showNat :: "nat \<Rightarrow> string" where
  "showNat n =
    (if n < 10 then [char_of (48 + n)] else showNat (n div 10) @ [char_of (48 + n mod 10)])"

declare showNat.simps [simp del]

definition showInt :: "int \<Rightarrow> string" where
  "showInt i = (if i < 0 then ''-'' @ showNat (nat (- i)) else showNat (nat i))"

definition getTickets :: "string \<Rightarrow> string \<Rightarrow> ticket_status option \<Rightarrow> ticket list \<times> nat" where
  "getTickets nowIso agentId statusFilter =
    (let allTickets =
       [\<lparr>ticketId = ''T-1'', title = ''Hello'', createdBy = agentId,
         description = Some ''Initial ticket'', status = Some Open,
         createdAt = Some nowIso\<rparr>,
        \<lparr>ticketId = ''T-2'', title = ''Bug Report'', createdBy = agentId,
         description = Some ''System issue reported'', status = Some InProgress,
         createdAt = Some nowIso\<rparr>,
        \<lparr>ticketId = ''T-3'', title = ''Feature Request'', createdBy = agentId,
         description = Some ''New feature suggestion'', status = Some Closed,
         createdAt = Some nowIso\<rparr>];
         filteredTickets =
           (case statusFilter of
              None \<Rightarrow> allTickets
            | Some f \<Rightarrow> filter (\<lambda>t. status t = Some f) allTickets)
     in (filteredTickets, length filteredTickets))"

definition createTicket :: "int \<Rightarrow> string \<Rightarrow> string \<Rightarrow> string option \<Rightarrow> string \<Rightarrow> ticket \<times> bool" where
  "createTicket nowMs nowIso ticketTitle ticketDescription agentId =
    (\<lparr>ticketId = ''T-'' @ showInt nowMs, title = ticketTitle, createdBy = agentId,
      description = ticketDescription, status = Some Open, createdAt = Some nowIso\<rparr>,
     True)"

text \<open>
  \<open>execute\<close> of the two tools of the latest version: the token is verified for the tool's
  scope, then the business logic runs with the verified agent; any error is thrown again as
  "Authentication failed: ...".
\<close>

definition ticketsTool_execute ::
  "('s \<Rightarrow> string \<Rightarrow> (error + access_grant) \<times> 's) \<Rightarrow> 's \<Rightarrow> string \<Rightarrow>
   string \<Rightarrow> ticket_status option \<Rightarrow> (error + ticket list \<times> nat) \<times> 's" where
  "ticketsTool_execute verifyAccessToken st nowIso authToken statusFilter =
    (case verifyToken verifyAccessToken st (''Bearer '' @ authToken) ''tickets.read'' of
       (Inl e, st') \<Rightarrow> (Inl (Error (''Authentication failed: '' @ message e)), st')
     | (Inr r, st') \<Rightarrow> (Inr (getTickets nowIso (grantAgentId r) statusFilter), st'))"

definition createTicketTool_execute ::
  "('s \<Rightarrow> string \<Rightarrow> (error + access_grant) \<times> 's) \<Rightarrow> 's \<Rightarrow> int \<Rightarrow> string \<Rightarrow>
   string \<Rightarrow> string \<Rightarrow> string option \<Rightarrow> (error + ticket \<times> bool) \<times> 's" where
  "createTicketTool_execute verifyAccessToken st nowMs nowIso authToken ticketTitle
      ticketDescription =
    (case verifyToken verifyAccessToken st (''Bearer '' @ authToken) ''tickets.write'' of
       (Inl e, st') \<Rightarrow> (Inl (Error (''Authentication failed: '' @ message e)), st')
     | (Inr r, st') \<Rightarrow>
         (Inr (createTicket nowMs nowIso ticketTitle ticketDescription (grantAgentId r)), st'))"

text \<open>
  How the tools are configured from \<open>process.env\<close>.  The latest tool builds
  \<open>verifyAccessToken\<close> from \<open>TOKEN_SERVICE_JWKS_URL\<close> and \<open>TICKETS_AUD\<close>; the first tool builds
  \<open>verify\<close> from \<open>JWKS_URL\<close> and \<open>TICKETS_AUD\<close>; each value has a \<open>??\<close> default.
\<close>

definition verifyAccessToken ::
  "process_env \<Rightarrow> (string \<Rightarrow> string \<Rightarrow> string \<Rightarrow> error + jwt_payload \<times> protected_header) \<Rightarrow>
   string \<Rightarrow> int \<Rightarrow> replay_cache \<Rightarrow> string \<Rightarrow> (error + access_grant) \<times> replay_cache" where
  "verifyAccessToken env jwtVerify tokenServiceIssuer now =
    makeAccessTokenVerifier jwtVerify tokenServiceIssuer now
      (nullish (env ''TOKEN_SERVICE_JWKS_URL'') ''http://localhost:8787/.well-known/jwks.json'')
      (nullish (env ''TICKETS_AUD'') ''https://tools.local/tickets'')"

definition verify ::
  "process_env \<Rightarrow> (string \<Rightarrow> string \<Rightarrow> string \<Rightarrow> error + jwt_payload \<times> protected_header) \<Rightarrow>
   replay_cache \<Rightarrow> string option \<Rightarrow> (error + verified_agent) \<times> replay_cache" where
  "verify env jwtVerify =
    makeVerifier jwtVerify
      (nullish (env ''JWKS_URL'') ''http://localhost:8787/.well-known/jwks.json'')
      (nullish (env ''TICKETS_AUD'') ''https://tools.local/tickets'')"

text \<open>
  Sample surroundings: a verifier that grants \<open>tickets.read\<close> only, and an environment
  for the agent that lacks \<open>TOKEN_SERVICE_URL\<close>.
\<close>

definition read_only_verifier :: "unit \<Rightarrow> string \<Rightarrow> (error + access_grant) \<times> unit" where
  "read_only_verifier st authHeader =
    (Inr \<lparr>grantAgentId = ''agent://demo/a1'', grantScopes = [''tickets.read'']\<rparr>, st)"

definition env_without_token_service_url :: process_env where
  "env_without_token_service_url =
    [''HELPDESK_PRIVATE_JWK_PATH'' \<mapsto> ''secrets/k1.private.jwk.json'',
     ''HELPDESK_AGENT_ID'' \<mapsto> ''agent://demo/a1'']"

section \<open>Replay detection\<close>

lemma startsWith_append: "startsWith (p @ s) p"
  by (simp add: startsWith_def)

text \<open>
  C1, as amended.  A token that passes \<open>jwtVerify\<close> with a non-empty issuer equal to its subject,
  a non-zero \<open>exp\<close> and a non-empty \<open>jti\<close> is rejected with "Replay detected" whenever its jti is
  in the replay table, whatever the expiry stored there, and the table is left as it was;
  otherwise it is accepted and the pair jti to exp is recorded.  So the same token verifies
  once and its second verification fails with "Replay detected".
\<close>

theorem replay_rejected_while_recorded:
  assumes "jwtVerify jwksUrl expectedAudience tok = Inr (payload, hdr)"
    and "iss payload = Some i" and "sub payload = Some i" and "i \<noteq> []"
    and "exp payload = Some e" and "e \<noteq> 0"
    and "jti payload = Some j" and "j \<noteq> []"
  shows "makeVerifier jwtVerify jwksUrl expectedAudience replayCache (Some (''Bearer '' @ tok)) =
      (if replayCache j \<noteq> None then (Inl (Error ''Replay detected''), replayCache)
       else (Inr \<lparr>verifiedAgentId = i, verifiedKid = kid hdr\<rparr>, replayCache(j \<mapsto> e)))
    \<and> (replayCache j = None \<longrightarrow>
        makeVerifier jwtVerify jwksUrl expectedAudience (replayCache(j \<mapsto> e))
          (Some (''Bearer '' @ tok)) = (Inl (Error ''Replay detected''), replayCache(j \<mapsto> e)))"
proof -
  have pre: "startsWith (''Bearer '' @ tok) ''Bearer ''"
    by (rule startsWith_append)
  have tok: "drop (length ''Bearer '') (''Bearer '' @ tok) = tok"
    by simp
  have step: "makeVerifier jwtVerify jwksUrl expectedAudience rc (Some (''Bearer '' @ tok)) =
      (if rc j \<noteq> None then (Inl (Error ''Replay detected''), rc)
       else (Inr \<lparr>verifiedAgentId = i, verifiedKid = kid hdr\<rparr>, rc(j \<mapsto> e)))" for rc
    unfolding makeVerifier_def using assms pre tok by simp
  show ?thesis
    using step [of replayCache] step [of "replayCache(j \<mapsto> e)"] by simp
qed

theorem replay_rejected_while_recorded_witness:
  "makeVerifier sample_jwtVerify ''http://localhost:8787/.well-known/jwks.json''
      ''https://tools.local/tickets'' Map.empty (Some ''Bearer tok-1'') =
     (Inr \<lparr>verifiedAgentId = ''agent://demo/a1'', verifiedKid = Some ''k1''\<rparr>, [''jti-1'' \<mapsto> 300])
   \<and> makeVerifier sample_jwtVerify ''http://localhost:8787/.well-known/jwks.json''
      ''https://tools.local/tickets'' [''jti-1'' \<mapsto> 300] (Some ''Bearer tok-1'') =
     (Inl (Error ''Replay detected''), [''jti-1'' \<mapsto> 300])"
proof -
  have v: "sample_jwtVerify ''http://localhost:8787/.well-known/jwks.json''
      ''https://tools.local/tickets'' ''tok-1'' = Inr (sample_payload, sample_header)"
    by (simp add: sample_jwtVerify_def sample_payload_def)
  show ?thesis
    using replay_rejected_while_recorded [where jwtVerify = sample_jwtVerify
        and jwksUrl = "''http://localhost:8787/.well-known/jwks.json''"
        and expectedAudience = "''https://tools.local/tickets''" and tok = "''tok-1''"
        and payload = sample_payload and hdr = sample_header and i = "''agent://demo/a1''"
        and e = 300 and j = "''jti-1''" and replayCache = Map.empty] v
    by (simp add: sample_payload_def sample_header_def)
qed

text \<open>
  The claim as stated fails: at time 200 the record of \<open>jti-1\<close> (expiry 100) has expired, and a
  validly signed token carrying that jti is still rejected with "Replay detected".
\<close>

theorem expired_record_still_rejects:
  "\<not> recordedAndNotExpired 200 [''jti-1'' \<mapsto> 100] ''jti-1''
   \<and> makeVerifier sample_jwtVerify ''http://localhost:8787/.well-known/jwks.json''
      ''https://tools.local/tickets'' [''jti-1'' \<mapsto> 100] (Some ''Bearer tok-1'') =
     (Inl (Error ''Replay detected''), [''jti-1'' \<mapsto> 100])"
  by (simp add: recordedAndNotExpired_def makeVerifier_def startsWith_def sample_jwtVerify_def
      sample_payload_def sample_header_def)

section \<open>The client assertion\<close>

lemma loadKey_file:
  "\<not> startsWith p ''http://'' \<Longrightarrow> \<not> startsWith p ''https://'' \<Longrightarrow>
   loadKey env p agentId =
     (case readJwkFile env p of
        Inl e \<Rightarrow> Inl e
      | Inr data \<Rightarrow> Inr (self data, agent_id (self data)))"
  by (simp add: loadKey_def)

lemma loadKey_agent:
  assumes "loadKey env p agentId = Inr (priv, agent)"
  shows "agent = agent_id priv \<or> (truthy agentId \<and> agent = agentId)"
  using assms
  by (auto simp: loadKey_def split: if_splits sum.splits option.splits list.splits)

text \<open>
  C7.  Every assertion \<open>makeClientAssertion\<close> produces has issuer and subject equal to the
  agent identifier resolved with the key, \<open>iat\<close> the current time in whole seconds, \<open>exp\<close> 60
  seconds later, as \<open>jti\<close> the value \<open>randomUUID()\<close> gave this call, and a protected header
  with the key's \<open>kid\<close> and the algorithm EdDSA.
\<close>

theorem assertion_claims:
  assumes "makeClientAssertion env privateJwkPath audience agentId = Inr a"
  shows "\<exists>priv agent k.
      loadKey env privateJwkPath agentId = Inr (priv, Some agent) \<and> agent \<noteq> []
    \<and> jwk_kid priv = Some k \<and> k \<noteq> []
    \<and> iss (claims a) = Some agent \<and> sub (claims a) = Some agent
    \<and> aud (claims a) = Some audience
    \<and> iat (claims a) = Some (dateNow env div 1000)
    \<and> exp (claims a) = Some (dateNow env div 1000 + 60)
    \<and> jti (claims a) = Some (randomUUID env)
    \<and> protectedHeader a = \<lparr>alg = Some ''EdDSA'', kid = Some k\<rparr>"
proof -
  from assms obtain priv agent where
    lk: "loadKey env privateJwkPath agentId = Inr (priv, agent)"
    by (auto simp: makeClientAssertion_def split: sum.splits)
  from assms lk have tk: "truthy (jwk_kid priv)" and ta: "truthy agent"
    by (auto simp: makeClientAssertion_def split: if_splits)
  from tk obtain k where k: "jwk_kid priv = Some k" "k \<noteq> []"
    by (cases "jwk_kid priv") auto
  from ta obtain ag where ag: "agent = Some ag" "ag \<noteq> []"
    by (cases agent) auto
  from assms lk k ag obtain key where
    "a = \<lparr>protectedHeader = \<lparr>alg = Some ''EdDSA'', kid = Some k\<rparr>,
          claims = \<lparr>iss = Some ag, sub = Some ag, aud = Some audience,
                    iat = Some (dateNow env div 1000),
                    exp = Some (dateNow env div 1000 + 60),
                    jti = Some (randomUUID env), scopesClaim = None\<rparr>,
          signingKey = key\<rparr>"
    by (auto simp: makeClientAssertion_def Let_def split: sum.splits)
  with lk k ag show ?thesis by simp
qed

theorem assertion_claims_witness:
  "(\<exists>a. makeClientAssertion sample_sign_env ''secrets/k1.private.jwk.json''
        ''https://tools.local/tickets'' None = Inr a
     \<and> iss (claims a) = Some ''agent://worf'' \<and> sub (claims a) = Some ''agent://worf''
     \<and> iat (claims a) = Some 1755286299 \<and> exp (claims a) = Some 1755286359
     \<and> jti (claims a) = Some ''3b241101-e2bb-4255-8caf-4136c566a962''
     \<and> protectedHeader a = \<lparr>alg = Some ''EdDSA'', kid = Some ''k1''\<rparr>)
   \<and> (\<exists>a. makeClientAssertion sample_sign_env ''http://localhost:8787/.well-known/jwks.json''
        ''https://tools.local/tickets'' (Some ''agent://demo/a1'') = Inr a
     \<and> iss (claims a) = Some ''agent://demo/a1'' \<and> sub (claims a) = Some ''agent://demo/a1''
     \<and> exp (claims a) = Some 1755286359
     \<and> protectedHeader a = \<lparr>alg = Some ''EdDSA'', kid = Some ''k2''\<rparr>)"
proof -
  obtain a where a: "makeClientAssertion sample_sign_env ''secrets/k1.private.jwk.json''
      ''https://tools.local/tickets'' None = Inr a"
    by (simp add: makeClientAssertion_def loadKey_def startsWith_def sample_sign_env_def
        sample_jwk_def)
  have lk: "loadKey sample_sign_env ''secrets/k1.private.jwk.json'' None =
      Inr (sample_jwk, Some ''agent://worf'')"
    by (simp add: loadKey_def startsWith_def sample_sign_env_def sample_jwk_def)
  from assertion_claims [OF a] lk
  have "iss (claims a) = Some ''agent://worf'' \<and> sub (claims a) = Some ''agent://worf''
     \<and> iat (claims a) = Some (dateNow sample_sign_env div 1000)
     \<and> exp (claims a) = Some (dateNow sample_sign_env div 1000 + 60)
     \<and> jti (claims a) = Some (randomUUID sample_sign_env)
     \<and> protectedHeader a = \<lparr>alg = Some ''EdDSA'', kid = Some ''k1''\<rparr>"
    by (auto simp: sample_jwk_def)
  then have from_file: "\<exists>a. makeClientAssertion sample_sign_env ''secrets/k1.private.jwk.json''
        ''https://tools.local/tickets'' None = Inr a
     \<and> iss (claims a) = Some ''agent://worf'' \<and> sub (claims a) = Some ''agent://worf''
     \<and> iat (claims a) = Some 1755286299 \<and> exp (claims a) = Some 1755286359
     \<and> jti (claims a) = Some ''3b241101-e2bb-4255-8caf-4136c566a962''
     \<and> protectedHeader a = \<lparr>alg = Some ''EdDSA'', kid = Some ''k1''\<rparr>"
    using a by (simp add: sample_sign_env_def)
  obtain b where b: "makeClientAssertion sample_sign_env
      ''http://localhost:8787/.well-known/jwks.json''
      ''https://tools.local/tickets'' (Some ''agent://demo/a1'') = Inr b"
    by (simp add: makeClientAssertion_def loadKey_def startsWith_def sample_sign_env_def
        sample_jwk_anonymous_def)
  have lkb: "loadKey sample_sign_env ''http://localhost:8787/.well-known/jwks.json''
      (Some ''agent://demo/a1'') = Inr (sample_jwk_anonymous, Some ''agent://demo/a1'')"
    by (simp add: loadKey_def startsWith_def sample_sign_env_def)
  from assertion_claims [OF b] lkb
  have "iss (claims b) = Some ''agent://demo/a1'' \<and> sub (claims b) = Some ''agent://demo/a1''
     \<and> exp (claims b) = Some (dateNow sample_sign_env div 1000 + 60)
     \<and> protectedHeader b = \<lparr>alg = Some ''EdDSA'', kid = Some ''k2''\<rparr>"
    by (auto simp: sample_jwk_anonymous_def)
  then have from_url: "\<exists>a. makeClientAssertion sample_sign_env
        ''http://localhost:8787/.well-known/jwks.json''
        ''https://tools.local/tickets'' (Some ''agent://demo/a1'') = Inr a
     \<and> iss (claims a) = Some ''agent://demo/a1'' \<and> sub (claims a) = Some ''agent://demo/a1''
     \<and> exp (claims a) = Some 1755286359
     \<and> protectedHeader a = \<lparr>alg = Some ''EdDSA'', kid = Some ''k2''\<rparr>"
    using b by (simp add: sample_sign_env_def)
  from from_file from_url show ?thesis by blast
qed

text \<open>
  C8.  Once the key material is loaded, signing fails with "Private JWK missing kid" when the
  key has no \<open>kid\<close>; it fails with "Agent ID not provided and not found in JWK" when the key
  has a \<open>kid\<close> and neither the key's \<open>agent_id\<close> nor the caller's \<open>agentId\<close> gives an
  identity (the \<open>kid\<close> is tested first); and whenever the key has no \<open>kid\<close> or no identity can
  be resolved, the call returns an error and no assertion.
\<close>

theorem missing_kid_or_agent_fails:
  assumes "loadKey env privateJwkPath agentId = Inr (priv, agent)"
  shows "(\<not> truthy (jwk_kid priv) \<longrightarrow>
        makeClientAssertion env privateJwkPath audience agentId =
          Inl (Error ''Private JWK missing kid''))
    \<and> (truthy (jwk_kid priv) \<and> \<not> truthy agentId \<and> \<not> truthy (agent_id priv) \<longrightarrow>
        makeClientAssertion env privateJwkPath audience agentId =
          Inl (Error ''Agent ID not provided and not found in JWK''))
    \<and> (\<not> truthy (jwk_kid priv) \<or> (\<not> truthy agentId \<and> \<not> truthy (agent_id priv)) \<longrightarrow>
        (\<exists>e. makeClientAssertion env privateJwkPath audience agentId = Inl e))"
proof -
  have unresolved: "\<not> truthy agent" if "\<not> truthy agentId" "\<not> truthy (agent_id priv)"
    using loadKey_agent [OF assms] that by auto
  have nokid: "makeClientAssertion env privateJwkPath audience agentId =
      Inl (Error ''Private JWK missing kid'')" if "\<not> truthy (jwk_kid priv)"
    using assms that by (simp add: makeClientAssertion_def)
  have noagent: "makeClientAssertion env privateJwkPath audience agentId =
      Inl (Error ''Agent ID not provided and not found in JWK'')"
    if "truthy (jwk_kid priv)" "\<not> truthy agentId" "\<not> truthy (agent_id priv)"
    using assms that unresolved by (simp add: makeClientAssertion_def)
  show ?thesis
    using nokid noagent by (cases "truthy (jwk_kid priv)") auto
qed

theorem missing_kid_or_agent_fails_witness:
  "makeClientAssertion sample_sign_env ''secrets/k3.private.jwk.json''
      ''https://tools.local/tickets'' None = Inl (Error ''Private JWK missing kid'')
   \<and> makeClientAssertion sample_sign_env ''secrets/k2.private.jwk.json''
      ''https://tools.local/tickets'' None =
        Inl (Error ''Agent ID not provided and not found in JWK'')"
proof -
  have k3: "loadKey sample_sign_env ''secrets/k3.private.jwk.json'' None =
      Inr (sample_jwk_no_kid, None)"
    by (simp add: loadKey_def startsWith_def sample_sign_env_def sample_jwk_no_kid_def)
  have k2: "loadKey sample_sign_env ''secrets/k2.private.jwk.json'' None =
      Inr (sample_jwk_anonymous, None)"
    by (simp add: loadKey_def startsWith_def sample_sign_env_def sample_jwk_anonymous_def)
  show ?thesis
    using missing_kid_or_agent_fails [OF k3, of "''https://tools.local/tickets''"]
      missing_kid_or_agent_fails [OF k2, of "''https://tools.local/tickets''"]
    by (simp add: sample_jwk_no_kid_def sample_jwk_anonymous_def)
qed

text \<open>
  C10.  When \<open>privateJwkPath\<close> is not an http:// or https:// URL, the \<open>agentId\<close> argument has
  no effect on the result; a produced assertion has as issuer and subject the \<open>agent_id\<close> of
  the JWK file; and if the file has no \<open>agent_id\<close> the call fails whatever \<open>agentId\<close> was
  given, with "Agent ID not provided and not found in JWK" when the file has a \<open>kid\<close>.
\<close>

theorem file_path_ignores_agentId:
  assumes "\<not> startsWith privateJwkPath ''http://''"
    and "\<not> startsWith privateJwkPath ''https://''"
  shows "makeClientAssertion env privateJwkPath audience agentId =
      makeClientAssertion env privateJwkPath audience None
    \<and> (\<forall>a. makeClientAssertion env privateJwkPath audience agentId = Inr a \<longrightarrow>
        (\<exists>data. readJwkFile env privateJwkPath = Inr data
          \<and> iss (claims a) = agent_id (self data) \<and> sub (claims a) = agent_id (self data)))
    \<and> (\<forall>data. readJwkFile env privateJwkPath = Inr data \<and> \<not> truthy (agent_id (self data)) \<longrightarrow>
        (\<exists>e. makeClientAssertion env privateJwkPath audience agentId = Inl e)
        \<and> (truthy (jwk_kid (self data)) \<longrightarrow>
            makeClientAssertion env privateJwkPath audience agentId =
              Inl (Error ''Agent ID not provided and not found in JWK'')))"
proof -
  note lk = loadKey_file [OF assms]
  have same: "makeClientAssertion env privateJwkPath audience agentId =
      makeClientAssertion env privateJwkPath audience None"
    by (simp add: makeClientAssertion_def lk)
  have from_file: "\<exists>data. readJwkFile env privateJwkPath = Inr data
      \<and> iss (claims a) = agent_id (self data) \<and> sub (claims a) = agent_id (self data)"
    if "makeClientAssertion env privateJwkPath audience agentId = Inr a" for a
    using that
    by (auto simp: makeClientAssertion_def lk Let_def split: sum.splits if_splits)
  have fails: "(\<exists>e. makeClientAssertion env privateJwkPath audience agentId = Inl e)
      \<and> (truthy (jwk_kid (self data)) \<longrightarrow>
          makeClientAssertion env privateJwkPath audience agentId =
            Inl (Error ''Agent ID not provided and not found in JWK''))"
    if "readJwkFile env privateJwkPath = Inr data" "\<not> truthy (agent_id (self data))" for data
    using that by (simp add: makeClientAssertion_def lk)
  show ?thesis
    using same from_file fails by blast
qed

theorem file_path_ignores_agentId_witness:
  "makeClientAssertion sample_sign_env ''secrets/k2.private.jwk.json''
      ''https://tools.local/tickets'' (Some ''agent://demo/a1'') =
     Inl (Error ''Agent ID not provided and not found in JWK'')
   \<and> makeClientAssertion sample_sign_env ''secrets/k1.private.jwk.json''
      ''https://tools.local/tickets'' (Some ''agent://demo/a1'') =
     makeClientAssertion sample_sign_env ''secrets/k1.private.jwk.json''
      ''https://tools.local/tickets'' None"
proof -
  have p2: "\<not> startsWith ''secrets/k2.private.jwk.json'' ''http://''"
    "\<not> startsWith ''secrets/k2.private.jwk.json'' ''https://''"
    by (simp_all add: startsWith_def)
  have p1: "\<not> startsWith ''secrets/k1.private.jwk.json'' ''http://''"
    "\<not> startsWith ''secrets/k1.private.jwk.json'' ''https://''"
    by (simp_all add: startsWith_def)
  have f2: "readJwkFile sample_sign_env ''secrets/k2.private.jwk.json'' =
      Inr \<lparr>doc_keys = None, self = sample_jwk_anonymous\<rparr>"
    by (simp add: sample_sign_env_def)
  have "makeClientAssertion sample_sign_env ''secrets/k2.private.jwk.json''
      ''https://tools.local/tickets'' (Some ''agent://demo/a1'') =
     Inl (Error ''Agent ID not provided and not found in JWK'')"
    using conjunct2 [OF conjunct2 [OF file_path_ignores_agentId [OF p2, of sample_sign_env
        "''https://tools.local/tickets''" "Some ''agent://demo/a1''"]]] f2
    by (simp add: sample_jwk_anonymous_def)
  moreover have "makeClientAssertion sample_sign_env ''secrets/k1.private.jwk.json''
      ''https://tools.local/tickets'' (Some ''agent://demo/a1'') =
     makeClientAssertion sample_sign_env ''secrets/k1.private.jwk.json''
      ''https://tools.local/tickets'' None"
    using file_path_ignores_agentId [OF p1, of sample_sign_env
        "''https://tools.local/tickets''" "Some ''agent://demo/a1''"]
    by blast
  ultimately show ?thesis by simp
qed

section \<open>The token cache\<close>

lemma join_no_sep:
  "list_all (\<lambda>s. c \<notin> set s) xs \<Longrightarrow> c \<notin> set sep \<Longrightarrow> c \<notin> set (join sep xs)"
  by (induction sep xs rule: join.induct) auto

lemma split_at_first:
  "x \<notin> set u \<Longrightarrow> x \<notin> set v \<Longrightarrow> u @ x # p = v @ x # q \<Longrightarrow> u = v \<and> p = q"
proof (induction u arbitrary: v)
  case Nil
  then show ?case by (cases v) auto
next
  case (Cons a u)
  then show ?case by (cases v) auto
qed

lemma join_inj:
  assumes "list_all (\<lambda>s. s \<noteq> [] \<and> c \<notin> set s) xs"
    and "list_all (\<lambda>s. s \<noteq> [] \<and> c \<notin> set s) ys"
    and "join [c] xs = join [c] ys"
  shows "xs = ys"
  using assms
proof (induction xs arbitrary: ys)
  case Nil
  then show ?case
    by (cases ys rule: remdups_adj.cases) auto
next
  case (Cons x xs)
  show ?case
  proof (cases xs)
    case Nil
    with Cons.prems show ?thesis
      by (cases ys rule: remdups_adj.cases) auto
  next
    case (Cons x' r)
    note xs = this
    show ?thesis
    proof (cases ys rule: remdups_adj.cases)
      case 1
      with Cons.prems xs show ?thesis by auto
    next
      case (2 y)
      with Cons.prems xs show ?thesis by auto
    next
      case (3 y y' r')
      with Cons.prems xs have eq: "x @ c # join [c] (x' # r) = y @ c # join [c] (y' # r')"
        and nx: "c \<notin> set x" and ny: "c \<notin> set y"
        by auto
      have "x = y \<and> join [c] (x' # r) = join [c] (y' # r')"
        using nx ny eq by (rule split_at_first)
      then have "x = y" and j: "join [c] (x' # r) = join [c] (y' # r')"
        by simp_all
      moreover from Cons.IH [of "y' # r'"] Cons.prems xs 3 j have "xs = y' # r'"
        by auto
      ultimately show ?thesis using 3 by simp
    qed
  qed
qed

lemma validScopes_sort: "validScopes (sort s) = validScopes s"
  by (simp add: validScopes_def list_all_iff)

lemma cacheKey_inj:
  assumes "validScopes s" and "validScopes s'" and "cacheKey a s = cacheKey a' s'"
  shows "a = a' \<and> sort s = sort s'"
proof -
  have v: "validScopes (sort s)" "validScopes (sort s')"
    using assms by (simp_all add: validScopes_sort)
  have c: "CHR '':'' \<notin> set (join '','' (sort s))" "CHR '':'' \<notin> set (join '','' (sort s'))"
    using v by (simp_all add: join_no_sep validScopes_def list_all_iff)
  from arg_cong [OF assms(3), of rev]
  have "rev (join '','' (sort s)) @ CHR '':'' # rev a
      = rev (join '','' (sort s')) @ CHR '':'' # rev a'"
    by (simp add: cacheKey_def)
  with c have "rev (join '','' (sort s)) = rev (join '','' (sort s')) \<and> rev a = rev a'"
    by (intro split_at_first [of "CHR '':''"]) simp_all
  then have "join '','' (sort s) = join '','' (sort s')" and a: "a = a'" by simp_all
  then have "sort s = sort s'"
    using v join_inj [of "CHR '',''" "sort s" "sort s'"]
    by (auto simp: validScopes_def list_all_iff)
  with a show ?thesis by simp
qed

lemma requestNewToken_Inl:
  "ex req = Inl e \<Longrightarrow>
   requestNewToken ex dec na req key c out =
     (Inl e, c, out @ [ConsoleLog ''Cache miss, requesting new token''])"
  by (simp add: requestNewToken_def)

lemma requestNewToken_Inr:
  "ex req = Inr t \<Longrightarrow>
   requestNewToken ex dec na req key c out =
     (Inr t, c(key \<mapsto> \<lparr>token = t, expires = cacheUntil (dec t) na\<rparr>),
      out @ [ConsoleLog ''Cache miss, requesting new token'',
             ConsoleLog ''Successfully obtained and cached access token''])"
  by (simp add: requestNewToken_def)

lemma requestNewToken_fst: "fst (requestNewToken ex dec na req key c out) = ex req"
  by (simp add: requestNewToken_def Let_def split: sum.splits)

lemma hit:
  assumes "usableEntry dec now c (cacheKey ta scopes)"
  shows "\<exists>cached. c (cacheKey ta scopes) = Some cached \<and>
     getAccessTokenWith ex dec now na p a u c ta scopes =
       (Inr (token cached), c, initialLines a u ta scopes @ [ConsoleLog ''Using cached token''])"
  using assms
  by (auto simp: usableEntry_def getAccessTokenWith_def initialLines_def Let_def
      split: option.splits)

lemma miss:
  assumes "\<not> usableEntry dec now c (cacheKey ta scopes)"
  shows "getAccessTokenWith ex dec now na p a u c ta scopes =
     (case requestNewToken ex dec na
        \<lparr>reqPrivateJwkPath = p, reqAgentId = a, reqTokenServiceUrl = u,
         reqTargetAudience = ta, reqScopes = sort scopes\<rparr> (cacheKey ta scopes)
        (if unexpiredEntry now c (cacheKey ta scopes) then c(cacheKey ta scopes := None) else c)
        (initialLines a u ta scopes @
         (if unexpiredEntry now c (cacheKey ta scopes)
          then [ConsoleLog ''Cached token expired, removing from cache''] else [])) of
        (Inl e, cache', out') \<Rightarrow>
             (Inl e, cache', out' @ [ConsoleError ''Failed to get access token:'' e])
         | (Inr t, cache', out') \<Rightarrow> (Inr t, cache', out'))"
  using assms
  by (auto simp: usableEntry_def unexpiredEntry_def getAccessTokenWith_def initialLines_def Let_def
      split: option.splits)

lemma miss_fst:
  assumes "\<not> usableEntry dec now c (cacheKey ta scopes)"
  shows "fst (getAccessTokenWith ex dec now na p a u c ta scopes) =
     ex \<lparr>reqPrivateJwkPath = p, reqAgentId = a, reqTokenServiceUrl = u,
         reqTargetAudience = ta, reqScopes = sort scopes\<rparr>"
  by (simp add: miss [OF assms] requestNewToken_def split: sum.splits)

lemma miss_cache:
  assumes "\<not> usableEntry dec now c (cacheKey ta scopes)"
  shows "fst (snd (getAccessTokenWith ex dec now na p a u c ta scopes)) =
     (case ex \<lparr>reqPrivateJwkPath = p, reqAgentId = a, reqTokenServiceUrl = u,
         reqTargetAudience = ta, reqScopes = sort scopes\<rparr> of
        Inl e \<Rightarrow> if unexpiredEntry now c (cacheKey ta scopes)
                 then c(cacheKey ta scopes := None) else c
      | Inr t \<Rightarrow> c(cacheKey ta scopes \<mapsto> \<lparr>token = t, expires = cacheUntil (dec t) na\<rparr>))"
  by (simp add: miss [OF assms] requestNewToken_def split: sum.splits)

lemma miss_out:
  assumes "\<not> usableEntry dec now c (cacheKey ta scopes)"
  shows "ConsoleLog ''Cache miss, requesting new token''
      \<in> set (snd (snd (getAccessTokenWith ex dec now na p a u c ta scopes)))
    \<and> ConsoleLog ''Using cached token''
      \<notin> set (snd (snd (getAccessTokenWith ex dec now na p a u c ta scopes)))"
  by (simp add: miss [OF assms] requestNewToken_def initialLines_def split: sum.splits)

lemma getAccessToken_configured:
  assumes "env ''HELPDESK_PRIVATE_JWK_PATH'' = Some p" and "p \<noteq> []"
    and "env ''HELPDESK_AGENT_ID'' = Some a" and "a \<noteq> []"
    and "env ''TOKEN_SERVICE_URL'' = Some u" and "u \<noteq> []"
  shows "getAccessToken env ex dec now na c ta scopes =
    getAccessTokenWith ex dec now na p a u c ta scopes"
  using assms by (simp add: getAccessToken_def requireEnv_def)

text \<open>
  The theorems of this section are about \<open>getAccessTokenWith\<close>: by
  \<open>getAccessToken_configured\<close> it is the latest \<open>getAccessToken\<close> whenever the three settings
  are present, and the first version is \<open>getAccessTokenWith\<close> by definition.
\<close>

text \<open>
  C5, as amended.  \<open>getAccessToken\<close> returns the cached token, without an exchange and
  without touching the cache, if and only if an entry exists for the key, the clock is before
  its \<open>expires\<close>, and the expiry decoded from the stored token is a non-zero number more than
  30 seconds ahead.  In every other case it performs a fresh exchange and returns its outcome;
  the entry is replaced when the exchange succeeds; when the exchange fails, an entry that
  passed the first check and failed the second has been deleted, and an entry that failed the
  first check is still in the cache.
\<close>

theorem cached_token_iff_usable:
  "(usableEntry dec now c (cacheKey ta scopes) \<longrightarrow>
      (\<exists>cached. c (cacheKey ta scopes) = Some cached \<and>
         (\<forall>ex'. getAccessTokenWith ex' dec now na p a u c ta scopes =
            (Inr (token cached), c,
             initialLines a u ta scopes @ [ConsoleLog ''Using cached token'']))))
   \<and> (\<not> usableEntry dec now c (cacheKey ta scopes) \<longrightarrow>
        fst (getAccessTokenWith ex dec now na p a u c ta scopes) =
          ex \<lparr>reqPrivateJwkPath = p, reqAgentId = a, reqTokenServiceUrl = u,
              reqTargetAudience = ta, reqScopes = sort scopes\<rparr>
      \<and> fst (snd (getAccessTokenWith ex dec now na p a u c ta scopes)) =
          (case ex \<lparr>reqPrivateJwkPath = p, reqAgentId = a, reqTokenServiceUrl = u,
                    reqTargetAudience = ta, reqScopes = sort scopes\<rparr> of
             Inl e \<Rightarrow> if unexpiredEntry now c (cacheKey ta scopes)
                      then c(cacheKey ta scopes := None) else c
           | Inr t \<Rightarrow> c(cacheKey ta scopes \<mapsto>
                        \<lparr>token = t, expires = cacheUntil (dec t) na\<rparr>))
      \<and> ConsoleLog ''Cache miss, requesting new token''
          \<in> set (snd (snd (getAccessTokenWith ex dec now na p a u c ta scopes))))
   \<and> (ConsoleLog ''Using cached token''
          \<in> set (snd (snd (getAccessTokenWith ex dec now na p a u c ta scopes)))
        \<longleftrightarrow> usableEntry dec now c (cacheKey ta scopes))"
proof (cases "usableEntry dec now c (cacheKey ta scopes)")
  case True
  from True obtain cached where e: "c (cacheKey ta scopes) = Some cached"
    by (auto simp: usableEntry_def split: option.splits)
  have h: "getAccessTokenWith ex' dec now na p a u c ta scopes =
      (Inr (token cached), c, initialLines a u ta scopes @ [ConsoleLog ''Using cached token''])"
    for ex'
    using hit [OF True, of ex' na p a u] e by auto
  show ?thesis using True e h by simp
next
  case False
  show ?thesis
    using False miss_fst [OF False] miss_cache [OF False] miss_out [OF False] by simp
qed

lemma key_read: "cacheKey ''https://tools.local/tickets'' [''tickets.read''] = ''https://tools.local/tickets:tickets.read''"
  by (simp add: cacheKey_def)

theorem cached_token_iff_usable_witness:
  "getAccessTokenWith failing_exchange sample_decode 1000000 1000100
      ''k.json'' ''agent://demo/a1'' ''http://localhost:8787'' cache_at_1240
      ''https://tools.local/tickets'' [''tickets.read''] =
     (Inr ''T[tickets.read]'', cache_at_1240,
      initialLines ''agent://demo/a1'' ''http://localhost:8787''
        ''https://tools.local/tickets'' [''tickets.read'']
      @ [ConsoleLog ''Using cached token''])
   \<and> fst (getAccessTokenWith sample_exchange sample_decode 1250000 1250100
      ''k.json'' ''agent://demo/a1'' ''http://localhost:8787'' cache_at_1240
      ''https://tools.local/tickets'' [''tickets.read'']) = Inr ''T[tickets.read]''"
proof -
  have u: "usableEntry sample_decode 1000000 cache_at_1240
      (cacheKey ''https://tools.local/tickets'' [''tickets.read''])"
    by (simp add: usableEntry_def cache_at_1240_def key_read sample_decode_def tokenExpMs_def)
  have n: "\<not> usableEntry sample_decode 1250000 cache_at_1240
      (cacheKey ''https://tools.local/tickets'' [''tickets.read''])"
    by (simp add: usableEntry_def cache_at_1240_def key_read sample_decode_def tokenExpMs_def)
  have e: "cache_at_1240 (cacheKey ''https://tools.local/tickets'' [''tickets.read'']) =
      Some \<lparr>token = ''T[tickets.read]'', expires = 1240000\<rparr>"
    by (simp add: cache_at_1240_def key_read)
  have "getAccessTokenWith failing_exchange sample_decode 1000000 1000100
      ''k.json'' ''agent://demo/a1'' ''http://localhost:8787'' cache_at_1240
      ''https://tools.local/tickets'' [''tickets.read''] =
     (Inr ''T[tickets.read]'', cache_at_1240,
      initialLines ''agent://demo/a1'' ''http://localhost:8787''
        ''https://tools.local/tickets'' [''tickets.read'']
      @ [ConsoleLog ''Using cached token''])"
    using conjunct1 [OF cached_token_iff_usable [of sample_decode 1000000 cache_at_1240
        "''https://tools.local/tickets''" "[''tickets.read'']" 1000100 "''k.json''"
        "''agent://demo/a1''" "''http://localhost:8787''"]] u e
    by auto
  moreover have "fst (getAccessTokenWith sample_exchange sample_decode 1250000 1250100
      ''k.json'' ''agent://demo/a1'' ''http://localhost:8787'' cache_at_1240
      ''https://tools.local/tickets'' [''tickets.read'']) = Inr ''T[tickets.read]''"
    using conjunct1 [OF conjunct2 [OF cached_token_iff_usable [of sample_decode 1250000
        cache_at_1240 "''https://tools.local/tickets''" "[''tickets.read'']"
        1250100 "''k.json''" "''agent://demo/a1''" "''http://localhost:8787''" sample_exchange]]] n
    by (simp add: sample_exchange_def)
  ultimately show ?thesis by simp
qed

text \<open>
  The claim as stated fails: at 1250000 the entry (\<open>expires\<close> 1240000) fails the first time
  check, the exchange fails, and the entry is still in the cache afterwards.
\<close>

theorem stale_entry_not_evicted:
  "\<not> unexpiredEntry 1250000 cache_at_1240 ''https://tools.local/tickets:tickets.read''
   \<and> getAccessTokenWith failing_exchange sample_decode 1250000 1250100
      ''k.json'' ''agent://demo/a1'' ''http://localhost:8787'' cache_at_1240
      ''https://tools.local/tickets'' [''tickets.read''] =
     (Inl (Error ''fetch failed''), cache_at_1240,
      initialLines ''agent://demo/a1'' ''http://localhost:8787''
        ''https://tools.local/tickets'' [''tickets.read'']
      @ [ConsoleLog ''Cache miss, requesting new token'',
         ConsoleError ''Failed to get access token:'' (Error ''fetch failed'')])
   \<and> cache_at_1240 ''https://tools.local/tickets:tickets.read'' =
       Some \<lparr>token = ''T[tickets.read]'', expires = 1240000\<rparr>"
  by (simp add: unexpiredEntry_def cache_at_1240_def getAccessTokenWith_def key_read
      requestNewToken_def failing_exchange_def)

lemma same_key_same_run:
  assumes "sort scopes1 = sort scopes2"
  shows "cacheKey ta scopes1 = cacheKey ta scopes2
    \<and> fst (getAccessTokenWith ex dec now na p a u c ta scopes1) =
      fst (getAccessTokenWith ex dec now na p a u c ta scopes2)
    \<and> fst (snd (getAccessTokenWith ex dec now na p a u c ta scopes1)) =
      fst (snd (getAccessTokenWith ex dec now na p a u c ta scopes2))
    \<and> tl (snd (snd (getAccessTokenWith ex dec now na p a u c ta scopes1))) =
      tl (snd (snd (getAccessTokenWith ex dec now na p a u c ta scopes2)))"
proof -
  have k: "cacheKey ta scopes1 = cacheKey ta scopes2"
    using assms by (simp add: cacheKey_def)
  show ?thesis
  proof (cases "usableEntry dec now c (cacheKey ta scopes1)")
    case True
    then have True2: "usableEntry dec now c (cacheKey ta scopes2)" using k by simp
    show ?thesis
      using hit [OF True, of ex na p a u] hit [OF True2, of ex na p a u] k
      by (auto simp: initialLines_def)
  next
    case False
    then have False2: "\<not> usableEntry dec now c (cacheKey ta scopes2)" using k by simp
    show ?thesis
      unfolding miss [OF False] miss [OF False2] using k assms
      by (auto simp: requestNewToken_def initialLines_def split: sum.splits)
  qed
qed

lemma stored_then_reused:
  assumes s: "sort scopes1 = sort scopes2"
    and m: "\<not> usableEntry dec now c (cacheKey ta scopes1)"
    and x: "ex \<lparr>reqPrivateJwkPath = p, reqAgentId = a, reqTokenServiceUrl = u,
              reqTargetAudience = ta, reqScopes = sort scopes1\<rparr> = Inr t"
  shows "fst (getAccessTokenWith ex dec now na p a u c ta scopes1) = Inr t
    \<and> fst (snd (getAccessTokenWith ex dec now na p a u c ta scopes1)) (cacheKey ta scopes2) =
        Some \<lparr>token = t, expires = cacheUntil (dec t) na\<rparr>
    \<and> (now2 < cacheUntil (dec t) na
        \<and> (\<exists>tokenExp. tokenExpMs (dec t) = Some tokenExp \<and> tokenExp \<noteq> 0
              \<and> now2 + 30000 < tokenExp) \<longrightarrow>
        (\<forall>ex'. getAccessTokenWith ex' dec now2 na2 p a u
                 (fst (snd (getAccessTokenWith ex dec now na p a u c ta scopes1))) ta scopes2 =
           (Inr t, fst (snd (getAccessTokenWith ex dec now na p a u c ta scopes1)),
            initialLines a u ta scopes2 @ [ConsoleLog ''Using cached token''])))"
proof -
  let ?c' = "fst (snd (getAccessTokenWith ex dec now na p a u c ta scopes1))"
  have k: "cacheKey ta scopes1 = cacheKey ta scopes2"
    using s by (simp add: cacheKey_def)
  have r: "fst (getAccessTokenWith ex dec now na p a u c ta scopes1) = Inr t"
    using miss_fst [OF m, of ex na p a u] x by simp
  have c': "?c' = c(cacheKey ta scopes2 \<mapsto> \<lparr>token = t, expires = cacheUntil (dec t) na\<rparr>)"
    using miss_cache [OF m, of ex na p a u] x k by simp
  have e: "?c' (cacheKey ta scopes2) = Some \<lparr>token = t, expires = cacheUntil (dec t) na\<rparr>"
    by (simp add: c')
  have h: "getAccessTokenWith ex' dec now2 na2 p a u ?c' ta scopes2 =
      (Inr t, ?c', initialLines a u ta scopes2 @ [ConsoleLog ''Using cached token''])"
    if "now2 < cacheUntil (dec t) na"
      and "\<exists>tokenExp. tokenExpMs (dec t) = Some tokenExp \<and> tokenExp \<noteq> 0
              \<and> now2 + 30000 < tokenExp" for ex'
  proof -
    have "usableEntry dec now2 ?c' (cacheKey ta scopes2)"
      using that e by (auto simp: usableEntry_def)
    from hit [OF this, of ex' na2 p a u] e show ?thesis by auto
  qed
  show ?thesis using r e h by blast
qed

text \<open>
  C6.  Two requests with the same audience whose scope lists are equal after sorting have the
  same cache key.  From the same cache state they return the same result and leave the same
  cache, and print the same lines after the first (which shows the scopes as given).  And
  they share the entry: when the first request finds no usable entry and its exchange
  returns a token, that token is returned and stored under the key of the second request,
  and the second request, made on the resulting cache while the entry is usable, returns
  that token from the cache, whatever the token service would answer, and leaves the cache
  as it is.
\<close>

theorem same_key_after_sorting:
  assumes "sort scopes1 = sort scopes2"
  shows "cacheKey ta scopes1 = cacheKey ta scopes2
    \<and> fst (getAccessTokenWith ex dec now na p a u c ta scopes1) =
      fst (getAccessTokenWith ex dec now na p a u c ta scopes2)
    \<and> fst (snd (getAccessTokenWith ex dec now na p a u c ta scopes1)) =
      fst (snd (getAccessTokenWith ex dec now na p a u c ta scopes2))
    \<and> tl (snd (snd (getAccessTokenWith ex dec now na p a u c ta scopes1))) =
      tl (snd (snd (getAccessTokenWith ex dec now na p a u c ta scopes2)))
    \<and> (\<not> usableEntry dec now c (cacheKey ta scopes1)
        \<and> ex \<lparr>reqPrivateJwkPath = p, reqAgentId = a, reqTokenServiceUrl = u,
                reqTargetAudience = ta, reqScopes = sort scopes1\<rparr> = Inr t \<longrightarrow>
        fst (getAccessTokenWith ex dec now na p a u c ta scopes1) = Inr t
        \<and> fst (snd (getAccessTokenWith ex dec now na p a u c ta scopes1))
              (cacheKey ta scopes2) =
            Some \<lparr>token = t, expires = cacheUntil (dec t) na\<rparr>
        \<and> (now2 < cacheUntil (dec t) na
            \<and> (\<exists>tokenExp. tokenExpMs (dec t) = Some tokenExp \<and> tokenExp \<noteq> 0
                  \<and> now2 + 30000 < tokenExp) \<longrightarrow>
            (\<forall>ex'. getAccessTokenWith ex' dec now2 na2 p a u
                     (fst (snd (getAccessTokenWith ex dec now na p a u c ta scopes1)))
                     ta scopes2 =
               (Inr t, fst (snd (getAccessTokenWith ex dec now na p a u c ta scopes1)),
                initialLines a u ta scopes2 @ [ConsoleLog ''Using cached token'']))))"
  using same_key_same_run [OF assms, of ta ex dec now na p a u c]
    stored_then_reused [OF assms, of dec now c ta ex p a u t na now2 na2]
  by blast

theorem same_key_after_sorting_witness:
  "cacheKey ''https://tools.local/tickets'' [''write'', ''read''] =
     cacheKey ''https://tools.local/tickets'' [''read'', ''write'']
   \<and> fst (getAccessTokenWith sample_exchange sample_decode 1000000 1000100
        ''k.json'' ''agent://demo/a1'' ''http://localhost:8787'' Map.empty
        ''https://tools.local/tickets'' [''write'', ''read'']) = Inr ''T[read][write]''
   \<and> getAccessTokenWith failing_exchange sample_decode 1001000 1001100
        ''k.json'' ''agent://demo/a1'' ''http://localhost:8787''
        (fst (snd (getAccessTokenWith sample_exchange sample_decode 1000000 1000100
           ''k.json'' ''agent://demo/a1'' ''http://localhost:8787'' Map.empty
           ''https://tools.local/tickets'' [''write'', ''read''])))
        ''https://tools.local/tickets'' [''read'', ''write''] =
      (Inr ''T[read][write]'',
       fst (snd (getAccessTokenWith sample_exchange sample_decode 1000000 1000100
          ''k.json'' ''agent://demo/a1'' ''http://localhost:8787'' Map.empty
          ''https://tools.local/tickets'' [''write'', ''read''])),
       initialLines ''agent://demo/a1'' ''http://localhost:8787''
         ''https://tools.local/tickets'' [''read'', ''write'']
       @ [ConsoleLog ''Using cached token''])"
proof -
  have s: "sort [''write'', ''read''] = sort [''read'', ''write'']"
    by simp
  have m: "\<not> usableEntry sample_decode 1000000 Map.empty
      (cacheKey ''https://tools.local/tickets'' [''write'', ''read''])"
    by (simp add: usableEntry_def)
  have x: "sample_exchange \<lparr>reqPrivateJwkPath = ''k.json'', reqAgentId = ''agent://demo/a1'',
      reqTokenServiceUrl = ''http://localhost:8787'',
      reqTargetAudience = ''https://tools.local/tickets'',
      reqScopes = sort [''write'', ''read'']\<rparr> = Inr ''T[read][write]''"
    by (simp add: sample_exchange_def)
  have u1: "(1001000::int) < cacheUntil (sample_decode ''T[read][write]'') 1000100"
    by (simp add: cacheUntil_def tokenExpMs_def sample_decode_def)
  have u2: "\<exists>tokenExp. tokenExpMs (sample_decode ''T[read][write]'') = Some tokenExp
      \<and> tokenExp \<noteq> 0 \<and> 1001000 + 30000 < tokenExp"
    by (simp add: tokenExpMs_def sample_decode_def)
  show ?thesis
    using same_key_after_sorting [OF s, where ta = "''https://tools.local/tickets''"
        and ex = sample_exchange and dec = sample_decode and now = 1000000 and na = 1000100
        and p = "''k.json''" and a = "''agent://demo/a1''" and u = "''http://localhost:8787''"
        and c = Map.empty and t = "''T[read][write]''" and ?now2.0 = 1001000
        and ?na2.0 = 1001100] m x u1 u2
    by blast
qed

lemma provenance_update:
  assumes "cacheProvenance issuedFor c" and "validScopes scopes"
    and "issuedFor ta (sort scopes) t"
  shows "cacheProvenance issuedFor (c(cacheKey ta scopes \<mapsto> \<lparr>token = t, expires = x\<rparr>))"
  using assms unfolding cacheProvenance_def by auto

lemma provenance_delete:
  assumes "cacheProvenance issuedFor c"
  shows "cacheProvenance issuedFor (c(k := None))"
  using assms unfolding cacheProvenance_def by auto

text \<open>
  C4, as amended.  Let every cache entry sit under the key of a request with valid scope
  names (not empty, no comma, no colon) and hold a token issued for that request, and let the
  current request have valid scope names.  Then every token \<open>getAccessToken\<close> returns, from
  the cache or from the exchange, was issued for this audience and for exactly the requested
  scopes, sorted, and so covers every requested scope; the cache keeps its provenance; and a
  request whose key has no entry, or for which no cached token was issued, performs a fresh
  exchange.
\<close>

theorem returned_token_issued_for_request:
  assumes prov: "cacheProvenance issuedFor c"
    and ex: "\<forall>req t. ex req = Inr t \<longrightarrow> issuedFor (reqTargetAudience req) (reqScopes req) t"
    and valid: "validScopes scopes"
  shows "(\<forall>t. fst (getAccessTokenWith ex dec now na p a u c ta scopes) = Inr t \<longrightarrow>
        (\<exists>recorded. recorded = sort scopes \<and> issuedFor ta recorded t
           \<and> set scopes \<subseteq> set recorded))
    \<and> cacheProvenance issuedFor (fst (snd (getAccessTokenWith ex dec now na p a u c ta scopes)))
    \<and> (c (cacheKey ta scopes) = None
          \<or> (\<forall>k e. c k = Some e \<longrightarrow> \<not> issuedFor ta (sort scopes) (token e)) \<longrightarrow>
        fst (getAccessTokenWith ex dec now na p a u c ta scopes) =
          ex \<lparr>reqPrivateJwkPath = p, reqAgentId = a, reqTokenServiceUrl = u,
              reqTargetAudience = ta, reqScopes = sort scopes\<rparr>
        \<and> ConsoleLog ''Cache miss, requesting new token''
            \<in> set (snd (snd (getAccessTokenWith ex dec now na p a u c ta scopes))))"
proof (cases "usableEntry dec now c (cacheKey ta scopes)")
  case True
  from hit [OF True, of ex na p a u] obtain cached where
    e: "c (cacheKey ta scopes) = Some cached"
    and g: "getAccessTokenWith ex dec now na p a u c ta scopes =
      (Inr (token cached), c, initialLines a u ta scopes @ [ConsoleLog ''Using cached token''])"
    by blast
  from prov e obtain a' s' where
    s': "validScopes s'" "cacheKey ta scopes = cacheKey a' s'" "issuedFor a' (sort s') (token cached)"
    unfolding cacheProvenance_def by blast
  from cacheKey_inj [OF valid s'(1) s'(2)] s'(3)
  have "issuedFor ta (sort scopes) (token cached)" by simp
  then show ?thesis using g e prov by auto
next
  case False
  let ?req = "\<lparr>reqPrivateJwkPath = p, reqAgentId = a, reqTokenServiceUrl = u,
              reqTargetAudience = ta, reqScopes = sort scopes\<rparr>"
  have f: "fst (getAccessTokenWith ex dec now na p a u c ta scopes) = ex ?req"
    by (rule miss_fst [OF False])
  have iss: "issuedFor ta (sort scopes) t" if "ex ?req = Inr t" for t
    using ex that by fastforce
  have pr: "cacheProvenance issuedFor (fst (snd (getAccessTokenWith ex dec now na p a u c ta scopes)))"
    unfolding miss_cache [OF False]
    using prov valid iss
    by (auto split: sum.splits intro: provenance_update provenance_delete)
  show ?thesis
    using f iss pr miss_out [OF False, of ex na p a u] by simp
qed

theorem returned_token_issued_for_request_witness:
  "cacheProvenance sample_issuedFor cache_at_1240
   \<and> fst (getAccessTokenWith failing_exchange sample_decode 1001000 1001100
        ''k.json'' ''agent://demo/a1'' ''http://localhost:8787'' cache_at_1240
        ''https://tools.local/tickets'' [''tickets.read'']) = Inr ''T[tickets.read]''
   \<and> sample_issuedFor ''https://tools.local/tickets'' [''tickets.read''] ''T[tickets.read]''"
proof -
  have p0: "cacheProvenance sample_issuedFor Map.empty"
    by (simp add: cacheProvenance_def)
  have ex: "\<forall>req t. sample_exchange req = Inr t \<longrightarrow>
      sample_issuedFor (reqTargetAudience req) (reqScopes req) t"
    by (simp add: sample_exchange_def sample_issuedFor_def)
  have ex': "\<forall>req t. failing_exchange req = Inr t \<longrightarrow>
      sample_issuedFor (reqTargetAudience req) (reqScopes req) t"
    by (simp add: failing_exchange_def)
  have v: "validScopes [''tickets.read'']"
    by (simp add: validScopes_def)
  have c1: "fst (snd (getAccessTokenWith sample_exchange sample_decode 1000000 1000100
      ''k.json'' ''agent://demo/a1'' ''http://localhost:8787'' Map.empty
      ''https://tools.local/tickets'' [''tickets.read''])) = cache_at_1240"
    by (simp add: getAccessTokenWith_def key_read requestNewToken_def sample_exchange_def
        cacheUntil_def tokenExpMs_def sample_decode_def cache_at_1240_def)
  have p1: "cacheProvenance sample_issuedFor cache_at_1240"
    using returned_token_issued_for_request [OF p0 ex v, of sample_decode 1000000 1000100
        "''k.json''" "''agent://demo/a1''" "''http://localhost:8787''"
        "''https://tools.local/tickets''"]
    by (simp add: c1)
  have g: "fst (getAccessTokenWith failing_exchange sample_decode 1001000 1001100
        ''k.json'' ''agent://demo/a1'' ''http://localhost:8787'' cache_at_1240
        ''https://tools.local/tickets'' [''tickets.read'']) = Inr ''T[tickets.read]''"
    by (simp add: getAccessTokenWith_def key_read cache_at_1240_def tokenExpMs_def
        sample_decode_def)
  from returned_token_issued_for_request [OF p1 ex' v, of sample_decode 1001000 1001100
        "''k.json''" "''agent://demo/a1''" "''http://localhost:8787''"
        "''https://tools.local/tickets''"] g
  have "sample_issuedFor ''https://tools.local/tickets'' [''tickets.read''] ''T[tickets.read]''"
    by simp
  with p1 g show ?thesis by simp
qed

text \<open>
  The claim as stated fails when a scope name holds a comma: the token exchanged for the one
  scope \<open>tickets.read,tickets.write\<close> is stored under the key that the two scopes
  \<open>tickets.read\<close> and \<open>tickets.write\<close> produce, and a request for these two is served that
  token from the cache.
\<close>

theorem comma_scope_served_from_cache:
  "getAccessTokenWith sample_exchange sample_decode 1000000 1000100
      ''k.json'' ''agent://demo/a1'' ''http://localhost:8787'' Map.empty
      ''https://tools.local/tickets'' [''tickets.read,tickets.write''] =
     (Inr ''T[tickets.read,tickets.write]'', cache_comma,
      initialLines ''agent://demo/a1'' ''http://localhost:8787''
        ''https://tools.local/tickets'' [''tickets.read,tickets.write'']
      @ [ConsoleLog ''Cache miss, requesting new token'',
         ConsoleLog ''Successfully obtained and cached access token''])
   \<and> getAccessTokenWith failing_exchange sample_decode 1001000 1001100
      ''k.json'' ''agent://demo/a1'' ''http://localhost:8787'' cache_comma
      ''https://tools.local/tickets'' [''tickets.read'', ''tickets.write''] =
     (Inr ''T[tickets.read,tickets.write]'', cache_comma,
      initialLines ''agent://demo/a1'' ''http://localhost:8787''
        ''https://tools.local/tickets'' [''tickets.read'', ''tickets.write'']
      @ [ConsoleLog ''Using cached token''])
   \<and> \<not> set [''tickets.read'', ''tickets.write''] \<subseteq> set [''tickets.read,tickets.write'']"
  by (simp add: getAccessTokenWith_def cacheKey_def requestNewToken_def sample_exchange_def
      cacheUntil_def tokenExpMs_def sample_decode_def cache_comma_def)

section \<open>The ticket tools\<close>

lemma not_invalid_issuer_write:
  "\<not> includesStr ''Insufficient permissions: tickets.write scope required'' ''Invalid issuer''"
  by (simp add: startsWith_def)

lemma not_invalid_issuer_read:
  "\<not> includesStr ''Insufficient permissions: tickets.read scope required'' ''Invalid issuer''"
  by (simp add: startsWith_def)

lemma verifyToken_insufficient:
  assumes "va st authHeader = (Inr result, st')"
    and "requiredScope \<notin> set (grantScopes result)"
    and "\<not> includesStr (''Insufficient permissions: '' @ requiredScope @ '' scope required'')
           ''Invalid issuer''"
  shows "verifyToken va st authHeader requiredScope =
    (Inl (Error (''Insufficient permissions: '' @ requiredScope @ '' scope required'')), st')"
  using assms by (simp add: verifyToken_def)

text \<open>
  C3, as amended.  When the access token verifies and its scope list lacks the required
  scope, \<open>verifyToken\<close> fails with "Insufficient permissions: <scope> scope required", naming
  the missing scope, for every scope name whose message does not hold the words "Invalid
  issuer" (the \<open>catch\<close> rewrites a message that holds them).  For the two tools, whose scopes
  are \<open>tickets.write\<close> and \<open>tickets.read\<close>, \<open>execute\<close> then returns that error as
  "Authentication failed: ..." and neither \<open>createTicket\<close> nor \<open>getTickets\<close> gives a result.
\<close>

theorem insufficient_scope_blocks_tool:
  assumes "va st (''Bearer '' @ authToken) = (Inr result, st')"
  shows "(requiredScope \<notin> set (grantScopes result)
        \<and> \<not> includesStr (''Insufficient permissions: '' @ requiredScope @ '' scope required'')
             ''Invalid issuer'' \<longrightarrow>
        verifyToken va st (''Bearer '' @ authToken) requiredScope =
          (Inl (Error (''Insufficient permissions: '' @ requiredScope @ '' scope required'')),
           st'))
    \<and> (''tickets.write'' \<notin> set (grantScopes result) \<longrightarrow>
        createTicketTool_execute va st nowMs nowIso authToken ticketTitle ticketDescription =
          (Inl (Error
             ''Authentication failed: Insufficient permissions: tickets.write scope required''),
           st'))
    \<and> (''tickets.read'' \<notin> set (grantScopes result) \<longrightarrow>
        ticketsTool_execute va st nowIso authToken statusFilter =
          (Inl (Error
             ''Authentication failed: Insufficient permissions: tickets.read scope required''),
           st'))"
proof -
  have w: "createTicketTool_execute va st nowMs nowIso authToken ticketTitle ticketDescription =
      (Inl (Error
         ''Authentication failed: Insufficient permissions: tickets.write scope required''),
       st')" if "''tickets.write'' \<notin> set (grantScopes result)"
    using verifyToken_insufficient [where va = va and st = st, OF assms that] not_invalid_issuer_write
    by (simp add: createTicketTool_execute_def)
  have r: "ticketsTool_execute va st nowIso authToken statusFilter =
      (Inl (Error
         ''Authentication failed: Insufficient permissions: tickets.read scope required''),
       st')" if "''tickets.read'' \<notin> set (grantScopes result)"
    using verifyToken_insufficient [where va = va and st = st, OF assms that] not_invalid_issuer_read
    by (simp add: ticketsTool_execute_def)
  show ?thesis
    using w r verifyToken_insufficient [where va = va and st = st, OF assms] by blast
qed

theorem insufficient_scope_blocks_tool_witness:
  "createTicketTool_execute read_only_verifier () 1755286299123 ''2025-08-15T19:31:39.123Z''
      ''tok-2'' ''Printer'' None =
     (Inl (Error
        ''Authentication failed: Insufficient permissions: tickets.write scope required''), ())
   \<and> verifyToken read_only_verifier () ''Bearer tok-2'' ''tickets.write'' =
     (Inl (Error ''Insufficient permissions: tickets.write scope required''), ())"
proof -
  have v: "read_only_verifier () (''Bearer '' @ ''tok-2'') =
      (Inr \<lparr>grantAgentId = ''agent://demo/a1'', grantScopes = [''tickets.read'']\<rparr>, ())"
    by (simp add: read_only_verifier_def)
  show ?thesis
    using insufficient_scope_blocks_tool [where va = read_only_verifier and st = "()"
        and authToken = "''tok-2''" and requiredScope = "''tickets.write''"
        and nowMs = 1755286299123 and nowIso = "''2025-08-15T19:31:39.123Z''"
        and ticketTitle = "''Printer''" and ticketDescription = None, OF v]
      not_invalid_issuer_write
    by simp
qed

text \<open>
  The claim as stated fails for a required scope named \<open>Invalid issuer\<close>: the token's scopes
  lack it, and the error \<open>verifyToken\<close> throws is rewritten by its own \<open>catch\<close> into one that
  does not name the scope.
\<close>

theorem scope_named_invalid_issuer_not_reported:
  "read_only_verifier () ''Bearer tok-2'' =
     (Inr \<lparr>grantAgentId = ''agent://demo/a1'', grantScopes = [''tickets.read'']\<rparr>, ())
   \<and> ''Invalid issuer'' \<notin> set [''tickets.read'']
   \<and> verifyToken read_only_verifier () ''Bearer tok-2'' ''Invalid issuer'' =
     (Inl (Error ''Token service required - direct JWT not accepted for security''), ())
   \<and> \<not> includesStr ''Token service required - direct JWT not accepted for security''
         ''Invalid issuer''"
  by (simp add: read_only_verifier_def verifyToken_def startsWith_def)

text \<open>
  C2.  Against the access-token verifier modelled from the spec: a bearer token that passes
  the signature and audience checks and whose issuer is not the Token Service's identity is
  rejected with "Invalid issuer" (\<open>UntrustedIssuer\<close>) and the replay table is left as it was;
  \<open>verifyToken\<close> turns this into "Token service required - direct JWT not accepted for
  security" for every required scope, and both tools fail.  A self-issued assertion, whose
  issuer is its subject and not the Token Service, is one such token.
\<close>

theorem untrusted_issuer_rejected:
  assumes "jwtVerify jwksUrl expectedAudience tok = Inr (payload, hdr)"
    and "iss payload \<noteq> Some tokenServiceIssuer"
  shows "makeAccessTokenVerifier jwtVerify tokenServiceIssuer now jwksUrl expectedAudience
        replayCache (''Bearer '' @ tok) = (Inl (Error ''Invalid issuer''), replayCache)
    \<and> verifyToken
        (makeAccessTokenVerifier jwtVerify tokenServiceIssuer now jwksUrl expectedAudience)
        replayCache (''Bearer '' @ tok) requiredScope =
          (Inl (Error ''Token service required - direct JWT not accepted for security''),
           replayCache)
    \<and> createTicketTool_execute
        (makeAccessTokenVerifier jwtVerify tokenServiceIssuer now jwksUrl expectedAudience)
        replayCache nowMs nowIso tok ticketTitle ticketDescription =
          (Inl (Error (''Authentication failed: ''
                @ ''Token service required - direct JWT not accepted for security'')),
           replayCache)
    \<and> ticketsTool_execute
        (makeAccessTokenVerifier jwtVerify tokenServiceIssuer now jwksUrl expectedAudience)
        replayCache nowIso tok statusFilter =
          (Inl (Error (''Authentication failed: ''
                @ ''Token service required - direct JWT not accepted for security'')),
           replayCache)"
proof -
  have pre: "startsWith (''Bearer '' @ tok) ''Bearer ''"
    by (rule startsWith_append)
  have inc: "includesStr ''Invalid issuer'' ''Invalid issuer''"
    by (simp add: startsWith_def)
  have m: "makeAccessTokenVerifier jwtVerify tokenServiceIssuer now jwksUrl expectedAudience
        replayCache (''Bearer '' @ tok) = (Inl (Error ''Invalid issuer''), replayCache)"
    unfolding makeAccessTokenVerifier_def using assms pre by simp
  have v: "verifyToken
        (makeAccessTokenVerifier jwtVerify tokenServiceIssuer now jwksUrl expectedAudience)
        replayCache (''Bearer '' @ tok) s =
          (Inl (Error ''Token service required - direct JWT not accepted for security''),
           replayCache)" for s
    unfolding verifyToken_def m using inc by simp
  show ?thesis
    using m v by (simp add: createTicketTool_execute_def ticketsTool_execute_def)
qed

theorem untrusted_issuer_rejected_witness:
  "iss sample_payload = sub sample_payload
   \<and> verifyToken
        (makeAccessTokenVerifier sample_jwtVerify ''https://token-service.local'' 250
           ''http://localhost:8787/.well-known/jwks.json'' ''https://tools.local/tickets'')
        Map.empty ''Bearer tok-1'' ''tickets.read'' =
      (Inl (Error ''Token service required - direct JWT not accepted for security''),
       Map.empty)"
proof -
  have v: "sample_jwtVerify ''http://localhost:8787/.well-known/jwks.json''
      ''https://tools.local/tickets'' ''tok-1'' = Inr (sample_payload, sample_header)"
    by (simp add: sample_jwtVerify_def sample_payload_def)
  have i: "iss sample_payload \<noteq> Some ''https://token-service.local''"
    by (simp add: sample_payload_def)
  have "verifyToken
        (makeAccessTokenVerifier sample_jwtVerify ''https://token-service.local'' 250
           ''http://localhost:8787/.well-known/jwks.json'' ''https://tools.local/tickets'')
        Map.empty (''Bearer '' @ ''tok-1'') ''tickets.read'' =
      (Inl (Error ''Token service required - direct JWT not accepted for security''),
       Map.empty)"
    using untrusted_issuer_rejected [where jwtVerify = sample_jwtVerify, OF v i] by blast
  then show ?thesis
    by (simp add: sample_payload_def)
qed

section \<open>Configuration\<close>

lemma requireEnv_missing:
  "\<not> truthy (env name) \<Longrightarrow>
   requireEnv env name = Inl (Error (name @ '' environment variable is required''))"
  by (cases "env name") (auto simp: requireEnv_def)

lemma requireEnv_present:
  "truthy (env name) \<Longrightarrow> \<exists>v. requireEnv env name = Inr v \<and> env name = Some v"
  by (cases "env name") (auto simp: requireEnv_def)

text \<open>
  C9, as amended.  The latest \<open>getAccessToken\<close> fails at its first use, before it reads the
  cache or asks for an exchange, when \<open>HELPDESK_PRIVATE_JWK_PATH\<close>, \<open>HELPDESK_AGENT_ID\<close> or
  \<open>TOKEN_SERVICE_URL\<close> is unset or empty, with an error naming the first of them that is
  missing.  The tools do not fail: with \<open>JWKS_URL\<close>, \<open>TOKEN_SERVICE_JWKS_URL\<close> and
  \<open>TICKETS_AUD\<close> unset, their verifiers are built for the local key-set URL and the audience
  \<open>https://tools.local/tickets\<close>; and the first version of the agent runs with its three
  built-in values when the variables are unset.
\<close>

theorem settings_required_or_defaulted:
  "(\<not> truthy (env ''HELPDESK_PRIVATE_JWK_PATH'') \<longrightarrow>
      getAccessToken env ex dec now na c ta scopes =
        (Inl (Error ''HELPDESK_PRIVATE_JWK_PATH environment variable is required''), c,
         [ConsoleError ''Failed to get access token:''
            (Error ''HELPDESK_PRIVATE_JWK_PATH environment variable is required'')]))
   \<and> (truthy (env ''HELPDESK_PRIVATE_JWK_PATH'') \<and> \<not> truthy (env ''HELPDESK_AGENT_ID'') \<longrightarrow>
      getAccessToken env ex dec now na c ta scopes =
        (Inl (Error ''HELPDESK_AGENT_ID environment variable is required''), c,
         [ConsoleError ''Failed to get access token:''
            (Error ''HELPDESK_AGENT_ID environment variable is required'')]))
   \<and> (truthy (env ''HELPDESK_PRIVATE_JWK_PATH'') \<and> truthy (env ''HELPDESK_AGENT_ID'')
        \<and> \<not> truthy (env ''TOKEN_SERVICE_URL'') \<longrightarrow>
      getAccessToken env ex dec now na c ta scopes =
        (Inl (Error ''TOKEN_SERVICE_URL environment variable is required''), c,
         [ConsoleError ''Failed to get access token:''
            (Error ''TOKEN_SERVICE_URL environment variable is required'')]))
   \<and> (env ''JWKS_URL'' = None \<and> env ''TICKETS_AUD'' = None \<longrightarrow>
      verify env jwtVerify =
        makeVerifier jwtVerify ''http://localhost:8787/.well-known/jwks.json''
          ''https://tools.local/tickets'')
   \<and> (env ''TOKEN_SERVICE_JWKS_URL'' = None \<and> env ''TICKETS_AUD'' = None \<longrightarrow>
      verifyAccessToken env jwtVerify tokenServiceIssuer nowSec =
        makeAccessTokenVerifier jwtVerify tokenServiceIssuer nowSec
          ''http://localhost:8787/.well-known/jwks.json'' ''https://tools.local/tickets'')
   \<and> (env ''HELPDESK_PRIVATE_JWK_PATH'' = None \<and> env ''HELPDESK_AGENT_ID'' = None
        \<and> env ''TOKEN_SERVICE_URL'' = None \<longrightarrow>
      getAccessToken_defaults env ex dec now na c ta scopes =
        getAccessTokenWith ex dec now na
          ''/home/brucec/techplay2/sandbox/auth-template-hackathon-v0/secrets/a1-ed25519-2025-08-15-d0a5e088.private.jwk.json''
          ''agent://demo/a1'' ''http://localhost:8787'' c ta scopes)"
proof -
  have p: "getAccessToken env ex dec now na c ta scopes =
        (Inl (Error ''HELPDESK_PRIVATE_JWK_PATH environment variable is required''), c,
         [ConsoleError ''Failed to get access token:''
            (Error ''HELPDESK_PRIVATE_JWK_PATH environment variable is required'')])"
    if "\<not> truthy (env ''HELPDESK_PRIVATE_JWK_PATH'')"
    using requireEnv_missing [where env = env, OF that] by (simp add: getAccessToken_def)
  have a: "getAccessToken env ex dec now na c ta scopes =
        (Inl (Error ''HELPDESK_AGENT_ID environment variable is required''), c,
         [ConsoleError ''Failed to get access token:''
            (Error ''HELPDESK_AGENT_ID environment variable is required'')])"
    if "truthy (env ''HELPDESK_PRIVATE_JWK_PATH'')" "\<not> truthy (env ''HELPDESK_AGENT_ID'')"
    using requireEnv_present [where env = env, OF that(1)]
      requireEnv_missing [where env = env, OF that(2)]
    by (auto simp: getAccessToken_def)
  have u: "getAccessToken env ex dec now na c ta scopes =
        (Inl (Error ''TOKEN_SERVICE_URL environment variable is required''), c,
         [ConsoleError ''Failed to get access token:''
            (Error ''TOKEN_SERVICE_URL environment variable is required'')])"
    if "truthy (env ''HELPDESK_PRIVATE_JWK_PATH'')" "truthy (env ''HELPDESK_AGENT_ID'')"
      "\<not> truthy (env ''TOKEN_SERVICE_URL'')"
    using requireEnv_present [where env = env, OF that(1)]
      requireEnv_present [where env = env, OF that(2)]
      requireEnv_missing [where env = env, OF that(3)]
    by (auto simp: getAccessToken_def)
  show ?thesis
    using p a u
    by (simp add: verify_def verifyAccessToken_def getAccessToken_defaults_def nullish_def
        orDefault_def)
qed

theorem settings_required_or_defaulted_witness:
  "getAccessToken env_without_token_service_url sample_exchange sample_decode 1000000 1000100
      Map.empty ''https://tools.local/tickets'' [''tickets.read''] =
     (Inl (Error ''TOKEN_SERVICE_URL environment variable is required''), Map.empty,
      [ConsoleError ''Failed to get access token:''
         (Error ''TOKEN_SERVICE_URL environment variable is required'')])"
proof -
  have t: "truthy (env_without_token_service_url ''HELPDESK_PRIVATE_JWK_PATH'')"
    "truthy (env_without_token_service_url ''HELPDESK_AGENT_ID'')"
    "\<not> truthy (env_without_token_service_url ''TOKEN_SERVICE_URL'')"
    by (simp_all add: env_without_token_service_url_def)
  show ?thesis
    using settings_required_or_defaulted [of env_without_token_service_url sample_exchange
        sample_decode 1000000 1000100 Map.empty "''https://tools.local/tickets''"
        "[''tickets.read'']"] t
    by blast
qed

text \<open>
  The claim as stated fails: with nothing set in the environment, the tool's verifier is
  built for the default key-set URL and the default audience and accepts a token for that
  audience; and the first version of the agent asks for an exchange, with its built-in key
  path, agent identifier and Token Service URL, and returns the token.
\<close>

theorem unset_settings_fall_back:
  "verify Map.empty sample_jwtVerify Map.empty (Some ''Bearer tok-1'') =
     (Inr \<lparr>verifiedAgentId = ''agent://demo/a1'', verifiedKid = Some ''k1''\<rparr>,
      [''jti-1'' \<mapsto> 300])
   \<and> fst (getAccessToken_defaults Map.empty sample_exchange sample_decode 1000000 1000100
        Map.empty ''https://tools.local/tickets'' [''tickets.read'']) = Inr ''T[tickets.read]''"
  by (simp add: verify_def nullish_def makeVerifier_def startsWith_def sample_jwtVerify_def
      sample_payload_def sample_header_def getAccessToken_defaults_def orDefault_def
      getAccessTokenWith_def key_read requestNewToken_def sample_exchange_def)

end
